theory Spec2Isabelle
  imports Complex_Main "HOL-Library.AList"
begin

section \<open>Python values shared by both engines\<close>

text \<open>
  Exceptions of the Python run time that the modelled code can raise. A function that can
  raise returns \<open>py_error + 'a\<close>; \<open>Inl\<close> is the exception leaving the function.
\<close>

datatype py_error = IndexError | ZeroDivisionError | ValueError | AttributeError

text \<open>
  A Python \<^verbatim>\<open>dict\<close> is an association list in insertion order. \<open>AList.update\<close> is
  \<^verbatim>\<open>d[k] = v\<close>: it replaces the value of an existing key in place and appends a new key;
  \<open>map_of\<close> is \<^verbatim>\<open>d.get(k)\<close>.
\<close>

section \<open>The digital logic simulator: \<^verbatim>\<open>simulation/digital_logic.py\<close>\<close>

subsection \<open>Logic levels and gate types\<close>

datatype LogicLevel = LOW | HIGH | UNKNOWN | HIGH_Z

text \<open>\<^verbatim>\<open>LogicLevel.value\<close>: the integer of each enum member.\<close>

fun level_value :: "LogicLevel \<Rightarrow> int" where
  "level_value LOW = 0"
| "level_value HIGH = 1"
| "level_value UNKNOWN = -1"
| "level_value HIGH_Z = -2"

datatype GateType =
    AND | OR | NOT | NAND | NOR | XOR | XNOR | BUFFER
  | DFF | JKFF | LATCH
  | MULTIPLEXER | DECODER | ENCODER

subsection \<open>class LogicGate\<close>

text \<open>
  The attributes of a \<^verbatim>\<open>LogicGate\<close>. \<^verbatim>\<open>id\<close>, \<^verbatim>\<open>type\<close>, \<^verbatim>\<open>inputs\<close> and \<^verbatim>\<open>output\<close> carry the
  prefix \<open>gate_\<close> here, since the simulator has attributes of the same names.
  Times are Python floats; the code only stores and copies them, so they are reals here.
\<close>

record LogicGate =
  gate_id :: string
  gate_type :: GateType
  num_inputs :: int
  gate_inputs :: "LogicLevel list"
  gate_output :: LogicLevel
  propagation_delay :: real
  last_update_time :: real

text \<open>\<^verbatim>\<open>LogicGate.__init__\<close>. \<^verbatim>\<open>[UNKNOWN] * n\<close> is the empty list for \<^verbatim>\<open>n <= 0\<close>.\<close>

definition LogicGate_init :: "string \<Rightarrow> GateType \<Rightarrow> int \<Rightarrow> real \<Rightarrow> LogicGate" where
  "LogicGate_init gid gt n delay =
     \<lparr>gate_id = gid, gate_type = gt, num_inputs = n,
      gate_inputs = replicate (nat n) UNKNOWN, gate_output = UNKNOWN,
      propagation_delay = delay, last_update_time = 0\<rparr>"

text \<open>
  \<^verbatim>\<open>LogicGate.evaluate\<close>. The branches stand in the order of the source. \<^verbatim>\<open>self.inputs[0]\<close>
  raises \<^verbatim>\<open>IndexError\<close> on a gate without inputs.
\<close>

definition count_high :: "LogicLevel list \<Rightarrow> nat" where
  "count_high ins = length (filter (\<lambda>i. i = HIGH) ins)"

definition LogicGate_evaluate :: "LogicGate \<Rightarrow> py_error + LogicLevel" where
  "LogicGate_evaluate g =
     (let ins = gate_inputs g in
      if UNKNOWN \<in> set ins then Inr UNKNOWN
      else (case gate_type g of
          AND \<Rightarrow> Inr (if list_all (\<lambda>i. i = HIGH) ins then HIGH else LOW)
        | OR \<Rightarrow> Inr (if list_ex (\<lambda>i. i = HIGH) ins then HIGH else LOW)
        | NOT \<Rightarrow> (case ins of [] \<Rightarrow> Inl IndexError
                   | i0 # _ \<Rightarrow> Inr (if i0 = LOW then HIGH else LOW))
        | NAND \<Rightarrow> Inr (if list_all (\<lambda>i. i = HIGH) ins then LOW else HIGH)
        | NOR \<Rightarrow> Inr (if list_ex (\<lambda>i. i = HIGH) ins then LOW else HIGH)
        | XOR \<Rightarrow> Inr (if count_high ins mod 2 = 1 then HIGH else LOW)
        | XNOR \<Rightarrow> Inr (if count_high ins mod 2 = 1 then LOW else HIGH)
        | BUFFER \<Rightarrow> (case ins of [] \<Rightarrow> Inl IndexError | i0 # _ \<Rightarrow> Inr i0)
        | _ \<Rightarrow> Inr UNKNOWN))"

text \<open>
  \<^verbatim>\<open>LogicGate.set_input\<close>: the index is checked against \<^verbatim>\<open>num_inputs\<close>, the write goes to
  the list \<^verbatim>\<open>inputs\<close>.
\<close>

definition LogicGate_set_input :: "LogicGate \<Rightarrow> int \<Rightarrow> LogicLevel \<Rightarrow> py_error + LogicGate" where
  "LogicGate_set_input g input_index v =
     (if 0 \<le> input_index \<and> input_index < num_inputs g then
        (if nat input_index < length (gate_inputs g)
         then Inr (g\<lparr>gate_inputs := (gate_inputs g)[nat input_index := v]\<rparr>)
         else Inl IndexError)
      else Inr g)"

text \<open>\<^verbatim>\<open>LogicGate.update\<close>: the returned flag says whether the output changed.\<close>

definition LogicGate_update :: "LogicGate \<Rightarrow> real \<Rightarrow> py_error + (bool \<times> LogicGate)" where
  "LogicGate_update g current_time_now =
     (case LogicGate_evaluate g of
        Inl e \<Rightarrow> Inl e
      | Inr new_output \<Rightarrow>
          if new_output \<noteq> gate_output g
          then Inr (True, g\<lparr>gate_output := new_output, last_update_time := current_time_now\<rparr>)
          else Inr (False, g))"

subsection \<open>class FlipFlop\<close>

text \<open>
  The attributes \<^verbatim>\<open>setup_time\<close>, \<^verbatim>\<open>hold_time\<close> and \<^verbatim>\<open>propagation_delay\<close> of a flip-flop are
  constants that no method reads; they are left out.
\<close>

record FlipFlop =
  ff_id :: string
  edge_trigger :: string
  d_input :: LogicLevel
  clock :: LogicLevel
  previous_clock :: LogicLevel
  q_output :: LogicLevel
  q_not_output :: LogicLevel

definition FlipFlop_init :: "string \<Rightarrow> string \<Rightarrow> FlipFlop" where
  "FlipFlop_init fid trig =
     \<lparr>ff_id = fid, edge_trigger = trig, d_input = UNKNOWN, clock = LOW,
      previous_clock = LOW, q_output = LOW, q_not_output = HIGH\<rparr>"

definition set_d :: "FlipFlop \<Rightarrow> LogicLevel \<Rightarrow> FlipFlop" where
  "set_d ff v = ff\<lparr>d_input := v\<rparr>"

definition set_clock :: "FlipFlop \<Rightarrow> LogicLevel \<Rightarrow> FlipFlop" where
  "set_clock ff v = ff\<lparr>previous_clock := clock ff, clock := v\<rparr>"

text \<open>\<^verbatim>\<open>FlipFlop.update\<close>: an edge is read off \<^verbatim>\<open>previous_clock\<close> and \<^verbatim>\<open>clock\<close>.\<close>

definition edge_detected :: "FlipFlop \<Rightarrow> bool" where
  "edge_detected ff =
     (if edge_trigger ff = ''rising'' then previous_clock ff = LOW \<and> clock ff = HIGH
      else if edge_trigger ff = ''falling'' then previous_clock ff = HIGH \<and> clock ff = LOW
      else False)"

definition FlipFlop_update :: "FlipFlop \<Rightarrow> bool \<times> FlipFlop" where
  "FlipFlop_update ff =
     (if edge_detected ff then
        (let new_q = d_input ff in
         if new_q \<noteq> q_output ff
         then (True, ff\<lparr>q_output := new_q,
                         q_not_output := (if new_q = LOW then HIGH else LOW)\<rparr>)
         else (False, ff))
      else (False, ff))"

subsection \<open>class Wire\<close>

record Wire =
  wire_id :: string
  from_gate :: string
  from_output :: string
  to_gate :: string
  to_input :: int
  signal :: LogicLevel

definition Wire_init :: "string \<Rightarrow> string \<Rightarrow> string \<Rightarrow> string \<Rightarrow> int \<Rightarrow> Wire" where
  "Wire_init wid fg fo tg ti =
     \<lparr>wire_id = wid, from_gate = fg, from_output = fo, to_gate = tg, to_input = ti,
      signal = UNKNOWN\<rparr>"

subsection \<open>class DigitalCircuitSimulator\<close>

text \<open>
  The state of a simulator: the tables the methods read and write. \<open>console\<close> is what
  \<^verbatim>\<open>print\<close> has written so far. The attributes \<^verbatim>\<open>outputs\<close>, \<^verbatim>\<open>event_queue\<close> and
  \<^verbatim>\<open>simulation_results\<close> are never touched after the constructor and are left out.
\<close>

record DigitalCircuitSimulator =
  gates :: "(string \<times> LogicGate) list"
  flip_flops :: "(string \<times> FlipFlop) list"
  wires :: "Wire list"
  inputs :: "(string \<times> LogicLevel) list"
  current_time :: real
  console :: "string list"

definition create_digital_simulator :: DigitalCircuitSimulator where
  "create_digital_simulator =
     \<lparr>gates = [], flip_flops = [], wires = [], inputs = [], current_time = 0, console = []\<rparr>"

definition add_gate ::
  "DigitalCircuitSimulator \<Rightarrow> string \<Rightarrow> GateType \<Rightarrow> int \<Rightarrow> real \<Rightarrow> DigitalCircuitSimulator" where
  "add_gate s gid gt n delay = s\<lparr>gates := AList.update gid (LogicGate_init gid gt n delay) (gates s)\<rparr>"

definition add_flip_flop ::
  "DigitalCircuitSimulator \<Rightarrow> string \<Rightarrow> string \<Rightarrow> DigitalCircuitSimulator" where
  "add_flip_flop s fid trig = s\<lparr>flip_flops := AList.update fid (FlipFlop_init fid trig) (flip_flops s)\<rparr>"

definition add_wire ::
  "DigitalCircuitSimulator \<Rightarrow> string \<Rightarrow> string \<Rightarrow> string \<Rightarrow> string \<Rightarrow> int \<Rightarrow> DigitalCircuitSimulator" where
  "add_wire s wid fg fo tg ti = s\<lparr>wires := wires s @ [Wire_init wid fg fo tg ti]\<rparr>"

definition set_input :: "DigitalCircuitSimulator \<Rightarrow> string \<Rightarrow> LogicLevel \<Rightarrow> DigitalCircuitSimulator" where
  "set_input s input_name v = s\<lparr>inputs := AList.update input_name v (inputs s)\<rparr>"

text \<open>
  The body of the loop \<^verbatim>\<open>for wire in self.wires\<close> of \<^verbatim>\<open>propagate\<close>: a wire whose two ends
  are both keys of \<^verbatim>\<open>self.gates\<close> copies the source gate's output to its signal and to the
  destination's input; any other wire is passed over (a \<^verbatim>\<open>LogicGate\<close> object is always
  true in \<^verbatim>\<open>if from_gate and to_gate\<close>, so the test is on the two lookups alone).
\<close>

definition push_wire ::
  "Wire \<Rightarrow> (string \<times> LogicGate) list \<Rightarrow> py_error + (Wire \<times> (string \<times> LogicGate) list)" where
  "push_wire w gs =
     (case (map_of gs (from_gate w), map_of gs (to_gate w)) of
        (Some fg, Some tg) \<Rightarrow>
          (case LogicGate_set_input tg (to_input w) (gate_output fg) of
             Inl e \<Rightarrow> Inl e
           | Inr tg' \<Rightarrow> Inr (w\<lparr>signal := gate_output fg\<rparr>, AList.update (to_gate w) tg' gs))
      | _ \<Rightarrow> Inr (w, gs))"

text \<open>
  The loop itself (it stands in \<^verbatim>\<open>propagate\<close> twice, before and inside the \<^verbatim>\<open>while\<close>). The
  gate table is threaded through, since a wire may feed a gate that a later wire reads.
\<close>

fun push_wires ::
  "Wire list \<Rightarrow> (string \<times> LogicGate) list \<Rightarrow> py_error + (Wire list \<times> (string \<times> LogicGate) list)" where
  "push_wires [] gs = Inr ([], gs)"
| "push_wires (w # ws) gs =
     (case push_wire w gs of
        Inl e \<Rightarrow> Inl e
      | Inr (w', gs1) \<Rightarrow>
          (case push_wires ws gs1 of
             Inl e \<Rightarrow> Inl e
           | Inr (ws', gs') \<Rightarrow> Inr (w' # ws', gs')))"

text \<open>The loop \<^verbatim>\<open>for gate in self.gates.values()\<close>: \<^verbatim>\<open>changes\<close> is set when any gate changed.\<close>

fun update_gates ::
  "real \<Rightarrow> (string \<times> LogicGate) list \<Rightarrow> py_error + (bool \<times> (string \<times> LogicGate) list)" where
  "update_gates t [] = Inr (False, [])"
| "update_gates t ((k, g) # gs) =
     (case LogicGate_update g t of
        Inl e \<Rightarrow> Inl e
      | Inr (c, g') \<Rightarrow>
          (case update_gates t gs of
             Inl e \<Rightarrow> Inl e
           | Inr (cs, gs') \<Rightarrow> Inr (c \<or> cs, (k, g') # gs')))"

definition max_iterations :: nat where
  "max_iterations = 100"

text \<open>
  The \<^verbatim>\<open>while changes and iterations < max_iterations\<close> loop of \<^verbatim>\<open>propagate\<close>. It returns the
  number of passes made together with the state.
\<close>

function propagate_loop ::
  "bool \<Rightarrow> nat \<Rightarrow> DigitalCircuitSimulator \<Rightarrow> py_error + (nat \<times> DigitalCircuitSimulator)" where
  "propagate_loop changes iterations s =
     (if changes \<and> iterations < max_iterations then
        (case update_gates (current_time s) (gates s) of
           Inl e \<Rightarrow> Inl e
         | Inr (changes', gs) \<Rightarrow>
             (case push_wires (wires s) gs of
                Inl e \<Rightarrow> Inl e
              | Inr (ws', gs') \<Rightarrow>
                  propagate_loop changes' (iterations + 1) (s\<lparr>gates := gs', wires := ws'\<rparr>)))
      else Inr (iterations, s))"
  by pat_completeness auto
termination
  by (relation "measure (\<lambda>(changes, iterations, s). max_iterations - iterations)") auto

text \<open>
  \<^verbatim>\<open>propagate\<close> up to the end of its \<^verbatim>\<open>while\<close> loop: the first wire loop, then the passes.
\<close>

definition propagate_passes ::
  "DigitalCircuitSimulator \<Rightarrow> py_error + (nat \<times> DigitalCircuitSimulator)" where
  "propagate_passes s =
     (case push_wires (wires s) (gates s) of
        Inl e \<Rightarrow> Inl e
      | Inr (ws', gs') \<Rightarrow> propagate_loop True 0 (s\<lparr>gates := gs', wires := ws'\<rparr>))"

text \<open>
  The line \<^verbatim>\<open>propagate\<close> prints when \<^verbatim>\<open>iterations >= max_iterations\<close> (the source's line
  starts with a warning sign, which is not ASCII and is left out here).
\<close>

definition loop_warning :: string where
  "loop_warning = ''Warning: Circuit may have combinational loop or oscillation''"

text \<open>\<^verbatim>\<open>propagate\<close> returns \<^verbatim>\<open>None\<close>; all it does is change the simulator and print.\<close>

definition propagate :: "DigitalCircuitSimulator \<Rightarrow> py_error + DigitalCircuitSimulator" where
  "propagate s =
     (case propagate_passes s of
        Inl e \<Rightarrow> Inl e
      | Inr (iterations, s') \<Rightarrow>
          Inr (if iterations \<ge> max_iterations
               then s'\<lparr>console := console s' @ [loop_warning]\<rparr>
               else s'))"

subsection \<open>simulate_clock_cycle\<close>

text \<open>One entry of the list \<^verbatim>\<open>simulate_clock_cycle\<close> returns (the dict \<^verbatim>\<open>state\<close>).\<close>

record Snapshot =
  snap_cycle :: int
  snap_edge :: string
  snap_gates :: "(string \<times> int) list"
  snap_flip_flops :: "(string \<times> int) list"

text \<open>The loop \<^verbatim>\<open>for ff in self.flip_flops.values(): ff.update()\<close>; the flag is dropped.\<close>

definition update_flip_flops :: "(string \<times> FlipFlop) list \<Rightarrow> (string \<times> FlipFlop) list" where
  "update_flip_flops ffs = map (\<lambda>(k, ff). (k, snd (FlipFlop_update ff))) ffs"

definition record_state :: "int \<Rightarrow> string \<Rightarrow> DigitalCircuitSimulator \<Rightarrow> Snapshot" where
  "record_state cycle e s =
     \<lparr>snap_cycle = cycle, snap_edge = e,
      snap_gates = map (\<lambda>(gid, g). (gid, level_value (gate_output g))) (gates s),
      snap_flip_flops = map (\<lambda>(fid, ff). (fid, level_value (q_output ff))) (flip_flops s)\<rparr>"

text \<open>
  One half of the loop body: store the clock level under \<^verbatim>\<open>clock_signal\<close> in \<^verbatim>\<open>self.inputs\<close>,
  propagate, update the flip-flops, record the state.
\<close>

definition clock_edge ::
  "string \<Rightarrow> LogicLevel \<Rightarrow> int \<Rightarrow> string \<Rightarrow> DigitalCircuitSimulator
     \<Rightarrow> py_error + (Snapshot \<times> DigitalCircuitSimulator)" where
  "clock_edge clock_signal level cycle e s =
     (case propagate (set_input s clock_signal level) of
        Inl err \<Rightarrow> Inl err
      | Inr s1 \<Rightarrow>
          (let s2 = s1\<lparr>flip_flops := update_flip_flops (flip_flops s1)\<rparr>
           in Inr (record_state cycle e s2, s2)))"

fun clock_cycles ::
  "string \<Rightarrow> int list \<Rightarrow> DigitalCircuitSimulator
     \<Rightarrow> py_error + (Snapshot list \<times> DigitalCircuitSimulator)" where
  "clock_cycles clock_signal [] s = Inr ([], s)"
| "clock_cycles clock_signal (cycle # cycles) s =
     (case clock_edge clock_signal HIGH cycle ''rising'' s of
        Inl err \<Rightarrow> Inl err
      | Inr (st1, s1) \<Rightarrow>
          (case clock_edge clock_signal LOW cycle ''falling'' s1 of
             Inl err \<Rightarrow> Inl err
           | Inr (st2, s2) \<Rightarrow>
               (case clock_cycles clock_signal cycles s2 of
                  Inl err \<Rightarrow> Inl err
                | Inr (results, s3) \<Rightarrow> Inr (st1 # st2 # results, s3))))"

text \<open>
  \<^verbatim>\<open>simulate_clock_cycle\<close>: \<^verbatim>\<open>range(num_cycles)\<close> is empty for \<^verbatim>\<open>num_cycles <= 0\<close>. The
  model returns the list of snapshots and the simulator as the call leaves it.
\<close>

definition simulate_clock_cycle ::
  "DigitalCircuitSimulator \<Rightarrow> string \<Rightarrow> int
     \<Rightarrow> py_error + (Snapshot list \<times> DigitalCircuitSimulator)" where
  "simulate_clock_cycle s clock_signal num_cycles =
     clock_cycles clock_signal (map int [0..<nat num_cycles]) s"

subsection \<open>get_truth_table\<close>

record TruthRow =
  row_inputs :: "(string \<times> int) list"
  row_outputs :: "(string \<times> int) list"

text \<open>\<^verbatim>\<open>(i >> j) & 1\<close> on the non-negative \<^verbatim>\<open>i\<close> of \<^verbatim>\<open>range(num_combinations)\<close>.\<close>

definition bit_of :: "nat \<Rightarrow> nat \<Rightarrow> int" where
  "bit_of i j = int ((i div 2 ^ j) mod 2)"

text \<open>
  The loop \<^verbatim>\<open>for j, input_name in enumerate(input_names)\<close>, from position \<open>j\<close> on: the level
  goes to \<^verbatim>\<open>self.inputs\<close>, to the output of the gate of that name when there is one, and the
  bit to \<^verbatim>\<open>input_values\<close>.
\<close>

fun set_combination ::
  "nat \<Rightarrow> nat \<Rightarrow> string list \<Rightarrow> DigitalCircuitSimulator \<Rightarrow> (string \<times> int) list
     \<Rightarrow> DigitalCircuitSimulator \<times> (string \<times> int) list" where
  "set_combination i j [] s input_values = (s, input_values)"
| "set_combination i j (input_name # names) s input_values =
     (let b = bit_of i j;
          level = (if b \<noteq> 0 then HIGH else LOW);
          s1 = set_input s input_name level;
          s2 = (case map_of (gates s1) input_name of
                  Some g \<Rightarrow> s1\<lparr>gates := AList.update input_name (g\<lparr>gate_output := level\<rparr>) (gates s1)\<rparr>
                | None \<Rightarrow> s1)
      in set_combination i (j + 1) names s2 (AList.update input_name b input_values))"

text \<open>The loop \<^verbatim>\<open>for output_name in output_names\<close>.\<close>

definition read_outputs :: "string list \<Rightarrow> (string \<times> LogicGate) list \<Rightarrow> (string \<times> int) list" where
  "read_outputs output_names gs =
     fold (\<lambda>output_name output_values.
             case map_of gs output_name of
               Some g \<Rightarrow> AList.update output_name (level_value (gate_output g)) output_values
             | None \<Rightarrow> output_values)
          output_names []"

text \<open>The loop \<^verbatim>\<open>for i in range(num_combinations)\<close> over the combinations still to do.\<close>

fun truth_rows ::
  "string list \<Rightarrow> string list \<Rightarrow> nat list \<Rightarrow> DigitalCircuitSimulator
     \<Rightarrow> py_error + (TruthRow list \<times> DigitalCircuitSimulator)" where
  "truth_rows input_names output_names [] s = Inr ([], s)"
| "truth_rows input_names output_names (i # rest) s =
     (case set_combination i 0 input_names s [] of
        (s1, input_values) \<Rightarrow>
          (case propagate s1 of
             Inl err \<Rightarrow> Inl err
           | Inr s2 \<Rightarrow>
               (case truth_rows input_names output_names rest s2 of
                  Inl err \<Rightarrow> Inl err
                | Inr (rows, s3) \<Rightarrow>
                    Inr (\<lparr>row_inputs = input_values,
                          row_outputs = read_outputs output_names (gates s2)\<rparr> # rows, s3))))"

definition get_truth_table ::
  "DigitalCircuitSimulator \<Rightarrow> string list \<Rightarrow> string list
     \<Rightarrow> py_error + (TruthRow list \<times> DigitalCircuitSimulator)" where
  "get_truth_table s input_names output_names =
     truth_rows input_names output_names [0..<2 ^ length input_names] s"

section \<open>The circuit simulation engine: \<^verbatim>\<open>simulation/engine.py\<close>\<close>

subsection \<open>Circuit descriptions\<close>

text \<open>
  A component is the dict the engine receives, with the keys it reads: \<^verbatim>\<open>id\<close> (an
  integer, as in the seed circuits), \<^verbatim>\<open>type\<close>, \<^verbatim>\<open>terminals\<close> (only enumerated, an absent key
  is the empty list) and \<^verbatim>\<open>props\<close> (an absent key is the empty dict; the values read are
  numbers).

  A wire is the dict with what \<^verbatim>\<open>_build_node_map\<close> reads from it: under \<^verbatim>\<open>"from"\<close> and under
  \<^verbatim>\<open>"to"\<close> a dict with the keys \<^verbatim>\<open>"comp"\<close> and \<^verbatim>\<open>"terminal"\<close> (default 0). The value under
  \<^verbatim>\<open>"comp"\<close> is either a dict, of which the engine reads \<^verbatim>\<open>"id"\<close> (\<^verbatim>\<open>None\<close> when the dict has no
  such key; an absent \<^verbatim>\<open>"comp"\<close> is the empty dict), or a value that is not a dict: the seed
  circuits of \<^verbatim>\<open>scripts/seed_database.py\<close> store the component's id itself there
  (\<^verbatim>\<open>{"comp": 1, "terminal": 0}\<close>), and the engine's \<^verbatim>\<open>.get("id")\<close> on it raises
  \<^verbatim>\<open>AttributeError\<close>.
\<close>

datatype comp_ref = CompDict "int option" | CompValue int

record component =
  comp_id :: int
  comp_type :: string
  terminals :: "string list"
  props :: "(string \<times> real) list"

record circuit_wire =
  from_comp :: comp_ref
  from_term :: int
  to_comp :: comp_ref
  to_term :: int

text \<open>\<^verbatim>\<open>.get("comp", {}).get("id")\<close> on an end of a wire.\<close>

fun comp_ref_id :: "comp_ref \<Rightarrow> py_error + int option" where
  "comp_ref_id (CompDict i) = Inr i"
| "comp_ref_id (CompValue v) = Inl AttributeError"

text \<open>
  Keys of the engine's dicts: a component id as it is (an integer), or a formatted string.
\<close>

datatype pykey = KInt int | KStr string

text \<open>\<^verbatim>\<open>str\<close> of an integer, and of an optional id (\<^verbatim>\<open>None\<close> prints as its name).\<close>

fun str_nat :: "nat \<Rightarrow> string" where
  "str_nat n =
     (if n < 10 then [char_of (48 + n)]
      else str_nat (n div 10) @ [char_of (48 + n mod 10)])"

definition str_int :: "int \<Rightarrow> string" where
  "str_int i = (if i < 0 then CHR ''-'' # str_nat (nat (- i)) else str_nat (nat i))"

definition str_id :: "int option \<Rightarrow> string" where
  "str_id c = (case c of None \<Rightarrow> ''None'' | Some i \<Rightarrow> str_int i)"

text \<open>The f-string \<^verbatim>\<open>f"{comp}_{term}"\<close>.\<close>

definition term_key :: "int option \<Rightarrow> int \<Rightarrow> pykey" where
  "term_key c t = KStr (str_id c @ ''_'' @ str_int t)"

text \<open>\<^verbatim>\<open>str\<close> of a key, for \<^verbatim>\<open>f"node_{node_id}"\<close>.\<close>

definition str_key :: "pykey \<Rightarrow> string" where
  "str_key k = (case k of KInt i \<Rightarrow> str_int i | KStr s \<Rightarrow> s)"

subsection \<open>_build_node_map\<close>

text \<open>The first loop: the id of the first component of type \<^verbatim>\<open>ground\<close>, if any.\<close>

definition find_ground :: "component list \<Rightarrow> int option" where
  "find_ground components = map_option comp_id (find (\<lambda>c. comp_type c = ''ground'') components)"

text \<open>
  The second loop, inner part: the terminals of one component, by index; a key not yet in
  the map gets the next node number.
\<close>

fun assign_terminals ::
  "int \<Rightarrow> nat list \<Rightarrow> (pykey \<times> int) list \<times> int \<Rightarrow> (pykey \<times> int) list \<times> int" where
  "assign_terminals cid [] (node_map, next_node) = (node_map, next_node)"
| "assign_terminals cid (term_idx # rest) (node_map, next_node) =
     (let key = term_key (Some cid) (int term_idx) in
      if map_of node_map key = None
      then assign_terminals cid rest (AList.update key (next_node + 1) node_map, next_node + 1)
      else assign_terminals cid rest (node_map, next_node))"

text \<open>The second loop: every component but the ground found above.\<close>

fun assign_nodes ::
  "int option \<Rightarrow> component list \<Rightarrow> (pykey \<times> int) list \<times> int \<Rightarrow> (pykey \<times> int) list \<times> int" where
  "assign_nodes ground_node [] st = st"
| "assign_nodes ground_node (c # cs) st =
     (if Some (comp_id c) = ground_node then assign_nodes ground_node cs st
      else assign_nodes ground_node cs
             (assign_terminals (comp_id c) [0..<length (terminals c)] st))"

text \<open>
  The body of the third loop: the two ids are read first (either read may raise); then a
  wire whose two keys are both in the map sets both to the smaller of their two node
  numbers.
\<close>

definition merge_wire :: "circuit_wire \<Rightarrow> (pykey \<times> int) list \<Rightarrow> py_error + (pykey \<times> int) list" where
  "merge_wire w node_map =
     (case comp_ref_id (from_comp w) of
        Inl e \<Rightarrow> Inl e
      | Inr from_id \<Rightarrow>
          (case comp_ref_id (to_comp w) of
             Inl e \<Rightarrow> Inl e
           | Inr to_id \<Rightarrow>
               (let from_key = term_key from_id (from_term w);
                    to_key = term_key to_id (to_term w) in
                case (map_of node_map from_key, map_of node_map to_key) of
                  (Some a, Some b) \<Rightarrow>
                    (let min_node = min a b in
                     Inr (AList.update to_key min_node (AList.update from_key min_node node_map)))
                | _ \<Rightarrow> Inr node_map)))"

text \<open>The third loop: \<^verbatim>\<open>for wire in wires\<close>.\<close>

fun merge_wires ::
  "circuit_wire list \<Rightarrow> (pykey \<times> int) list \<Rightarrow> py_error + (pykey \<times> int) list" where
  "merge_wires [] node_map = Inr node_map"
| "merge_wires (w # ws) node_map =
     (case merge_wire w node_map of
        Inl e \<Rightarrow> Inl e
      | Inr node_map' \<Rightarrow> merge_wires ws node_map')"

definition build_node_map ::
  "component list \<Rightarrow> circuit_wire list \<Rightarrow> py_error + ((pykey \<times> int) list \<times> int option)" where
  "build_node_map components ws =
     (let ground_node = find_ground components;
          node_map0 = (case ground_node of None \<Rightarrow> [] | Some g \<Rightarrow> [(KInt g, 0)]);
          (node_map1, next_node) = assign_nodes ground_node components (node_map0, 0)
      in (case merge_wires ws node_map1 of
            Inl e \<Rightarrow> Inl e
          | Inr node_map \<Rightarrow> Inr (node_map, ground_node)))"

subsection \<open>Arrays\<close>

text \<open>
  A numpy index on an axis of length \<open>n\<close>: a negative index counts from the end, an index
  outside \<open>-n .. n-1\<close> raises \<^verbatim>\<open>IndexError\<close>.
\<close>

definition np_index :: "nat \<Rightarrow> int \<Rightarrow> py_error + nat" where
  "np_index n i =
     (if 0 \<le> i \<and> i < int n then Inr (nat i)
      else if - int n \<le> i \<and> i < 0 then Inr (nat (i + int n))
      else Inl IndexError)"

text \<open>\<^verbatim>\<open>V[i]\<close> on a vector.\<close>

definition vec_get :: "real list \<Rightarrow> int \<Rightarrow> py_error + real" where
  "vec_get v i = (case np_index (length v) i of Inl e \<Rightarrow> Inl e | Inr k \<Rightarrow> Inr (v ! k))"

text \<open>\<^verbatim>\<open>I[i] = x\<close> on a vector.\<close>

definition vec_set :: "real list \<Rightarrow> int \<Rightarrow> real \<Rightarrow> py_error + real list" where
  "vec_set v i x = (case np_index (length v) i of Inl e \<Rightarrow> Inl e | Inr k \<Rightarrow> Inr (v[k := x]))"

text \<open>\<^verbatim>\<open>G[r, c] += x\<close> on a matrix stored by rows.\<close>

definition mat_add :: "real list list \<Rightarrow> int \<Rightarrow> int \<Rightarrow> real \<Rightarrow> py_error + real list list" where
  "mat_add G r c x =
     (case np_index (length G) r of
        Inl e \<Rightarrow> Inl e
      | Inr i \<Rightarrow>
          (case np_index (length (G ! i)) c of
             Inl e \<Rightarrow> Inl e
           | Inr j \<Rightarrow> Inr (G[i := (G ! i)[j := (G ! i) ! j + x]])))"

text \<open>\<^verbatim>\<open>np.zeros((n, n))\<close> and \<^verbatim>\<open>np.zeros(n)\<close>.\<close>

definition zeros2 :: "nat \<Rightarrow> real list list" where
  "zeros2 n = replicate n (replicate n 0)"

definition zeros1 :: "nat \<Rightarrow> real list" where
  "zeros1 n = replicate n 0"

text \<open>Python's \<^verbatim>\<open>x / y\<close> on numbers raises on a zero divisor.\<close>

definition py_div :: "real \<Rightarrow> real \<Rightarrow> py_error + real" where
  "py_div x y = (if y = 0 then Inl ZeroDivisionError else Inr (x / y))"

text \<open>\<^verbatim>\<open>d.get(k, default)\<close>.\<close>

definition dict_get :: "('k \<times> 'v) list \<Rightarrow> 'k \<Rightarrow> 'v \<Rightarrow> 'v" where
  "dict_get d k dflt = (case map_of d k of None \<Rightarrow> dflt | Some v \<Rightarrow> v)"

text \<open>Sequencing of steps that may raise: the first exception ends the run.\<close>

definition bind_err :: "'e + 'a \<Rightarrow> ('a \<Rightarrow> 'e + 'b) \<Rightarrow> 'e + 'b" where
  "bind_err m f = (case m of Inl e \<Rightarrow> Inl e | Inr x \<Rightarrow> f x)"

text \<open>\<^verbatim>\<open>xs.index(x)\<close>: the position of the first element equal to \<open>x\<close>, else \<^verbatim>\<open>ValueError\<close>.\<close>

fun list_index :: "'a list \<Rightarrow> 'a \<Rightarrow> py_error + nat" where
  "list_index [] x = Inl ValueError"
| "list_index (y # ys) x =
     (if y = x then Inr 0
      else (case list_index ys x of Inl e \<Rightarrow> Inl e | Inr k \<Rightarrow> Inr (Suc k)))"

subsection \<open>_add_component_to_mna\<close>

text \<open>\<^verbatim>\<open>g = 1.0 / r if r > 0 else 0\<close>.\<close>

definition resistor_conductance :: "real \<Rightarrow> py_error + real" where
  "resistor_conductance r = (if r > 0 then py_div 1 r else Inr 0)"

text \<open>
  The method changes \<^verbatim>\<open>G\<close> and \<^verbatim>\<open>I\<close> in place; the model returns both. The parameter
  \<^verbatim>\<open>ground_node\<close> of the source is not read by the method and is left out.
\<close>

definition add_component_to_mna ::
  "component \<Rightarrow> real list list \<Rightarrow> real list \<Rightarrow> (pykey \<times> int) list \<Rightarrow> component list
     \<Rightarrow> py_error + (real list list \<times> real list)" where
  "add_component_to_mna c G I node_map voltage_sources =
     (if comp_type c = ''resistor'' then
        (let n1 = dict_get node_map (term_key (Some (comp_id c)) 0) 0;
             n2 = dict_get node_map (term_key (Some (comp_id c)) 1) 0;
             r = dict_get (props c) ''resistance'' 1000 in
         bind_err (resistor_conductance r) (\<lambda>g.
         bind_err (if n1 > 0
                   then bind_err (mat_add G (n1 - 1) (n1 - 1) g) (\<lambda>G1.
                          if n2 > 0 then mat_add G1 (n1 - 1) (n2 - 1) (- g) else Inr G1)
                   else Inr G) (\<lambda>G2.
         bind_err (if n2 > 0
                   then bind_err (mat_add G2 (n2 - 1) (n2 - 1) g) (\<lambda>G3.
                          if n1 > 0 then mat_add G3 (n2 - 1) (n1 - 1) (- g) else Inr G3)
                   else Inr G2) (\<lambda>G4.
         Inr (G4, I)))))
      else if comp_type c = ''battery'' then
        (let n1 = dict_get node_map (term_key (Some (comp_id c)) 0) 0;
             n2 = dict_get node_map (term_key (Some (comp_id c)) 1) 0;
             v = dict_get (props c) ''voltage'' 9 in
         bind_err (list_index voltage_sources c) (\<lambda>vs_idx.
         (let num_nodes = int (length G) - int (length voltage_sources);
              row = num_nodes + int vs_idx in
          bind_err (if n1 > 0
                    then bind_err (mat_add G (n1 - 1) row 1) (\<lambda>G1. mat_add G1 row (n1 - 1) 1)
                    else Inr G) (\<lambda>G2.
          bind_err (if n2 > 0
                    then bind_err (mat_add G2 (n2 - 1) row (- 1)) (\<lambda>G3. mat_add G3 row (n2 - 1) (- 1))
                    else Inr G2) (\<lambda>G4.
          bind_err (vec_set I row v) (\<lambda>I'.
          Inr (G4, I')))))))
      else Inr (G, I))"

subsection \<open>_get_component_voltage\<close>

definition get_component_voltage ::
  "component \<Rightarrow> real list \<Rightarrow> (pykey \<times> int) list \<Rightarrow> py_error + real" where
  "get_component_voltage c V node_map =
     (let n1 = dict_get node_map (term_key (Some (comp_id c)) 0) 0;
          n2 = dict_get node_map (term_key (Some (comp_id c)) 1) 0 in
      bind_err (if n1 > 0 then vec_get V (n1 - 1) else Inr 0) (\<lambda>v1.
      bind_err (if n2 > 0 then vec_get V (n2 - 1) else Inr 0) (\<lambda>v2.
      Inr (v1 - v2))))"

subsection \<open>simulate_dc\<close>

text \<open>
  The dict \<^verbatim>\<open>simulate_dc\<close> returns. The key \<^verbatim>\<open>error\<close> is there on failure only, the key
  \<^verbatim>\<open>node_voltages\<close> on success only.
\<close>

record dc_result =
  dc_success :: bool
  dc_error :: "string option"
  dc_voltages :: "(pykey \<times> real) list"
  dc_currents :: "(pykey \<times> real) list"
  dc_node_voltages :: "(pykey \<times> real) list option"

definition dc_failure :: "string \<Rightarrow> dc_result" where
  "dc_failure msg =
     \<lparr>dc_success = False, dc_error = Some msg, dc_voltages = [], dc_currents = [],
      dc_node_voltages = None\<rparr>"

text \<open>The loop \<^verbatim>\<open>for component in components: self._add_component_to_mna(...)\<close>.\<close>

fun assemble ::
  "component list \<Rightarrow> real list list \<Rightarrow> real list \<Rightarrow> (pykey \<times> int) list \<Rightarrow> component list
     \<Rightarrow> py_error + (real list list \<times> real list)" where
  "assemble [] G I node_map voltage_sources = Inr (G, I)"
| "assemble (c # cs) G I node_map voltage_sources =
     (case add_component_to_mna c G I node_map voltage_sources of
        Inl e \<Rightarrow> Inl e
      | Inr (G', I') \<Rightarrow> assemble cs G' I' node_map voltage_sources)"

text \<open>The loop \<^verbatim>\<open>for node_id, node_idx in node_map.items()\<close>.\<close>

fun node_voltages ::
  "(pykey \<times> int) list \<Rightarrow> real list \<Rightarrow> (pykey \<times> real) list \<Rightarrow> py_error + (pykey \<times> real) list" where
  "node_voltages [] V voltages = Inr voltages"
| "node_voltages ((node_id, node_idx) # rest) V voltages =
     (if node_idx > 0 then
        (case vec_get V (node_idx - 1) of
           Inl e \<Rightarrow> Inl e
         | Inr x \<Rightarrow> node_voltages rest V (AList.update (KStr (''node_'' @ str_key node_id)) x voltages))
      else node_voltages rest V voltages)"

text \<open>\<^verbatim>\<open>i = v / r if r > 0 else 0\<close>.\<close>

definition resistor_current :: "real \<Rightarrow> real \<Rightarrow> py_error + real" where
  "resistor_current v r = (if r > 0 then py_div v r else Inr 0)"

text \<open>The loop over the components that derives each component's voltage and current.\<close>

fun component_results ::
  "component list \<Rightarrow> real list \<Rightarrow> (pykey \<times> int) list \<Rightarrow> component list \<Rightarrow> int
     \<Rightarrow> (pykey \<times> real) list \<times> (pykey \<times> real) list
     \<Rightarrow> py_error + ((pykey \<times> real) list \<times> (pykey \<times> real) list)" where
  "component_results [] V node_map voltage_sources num_nodes vc = Inr vc"
| "component_results (c # cs) V node_map voltage_sources num_nodes (voltages, currents) =
     (if comp_type c = ''resistor'' then
        (case get_component_voltage c V node_map of
           Inl e \<Rightarrow> Inl e
         | Inr v \<Rightarrow>
             (case resistor_current v (dict_get (props c) ''resistance'' 1000) of
                Inl e \<Rightarrow> Inl e
              | Inr i \<Rightarrow>
                  component_results cs V node_map voltage_sources num_nodes
                    (AList.update (KInt (comp_id c)) \<bar>v\<bar> voltages,
                     AList.update (KInt (comp_id c)) \<bar>i\<bar> currents)))
      else if comp_type c = ''battery'' then
        (case list_index voltage_sources c of
           Inl e \<Rightarrow> Inl e
         | Inr idx \<Rightarrow>
             (case vec_get V (num_nodes + int idx) of
                Inl e \<Rightarrow> Inl e
              | Inr x \<Rightarrow>
                  component_results cs V node_map voltage_sources num_nodes
                    (AList.update (KInt (comp_id c)) (dict_get (props c) ''voltage'' 9) voltages,
                     AList.update (KInt (comp_id c)) \<bar>x\<bar> currents)))
      else component_results cs V node_map voltage_sources num_nodes (voltages, currents))"

text \<open>
  \<^verbatim>\<open>simulate_dc\<close>. \<^verbatim>\<open>scipy.linalg.solve\<close> is a library outside the repository and works in
  floating point; it is the parameter \<open>linalg_solve\<close>, whose result \<open>None\<close> stands for any
  exception it raises (the bare \<^verbatim>\<open>except:\<close> catches every one).
\<close>

definition simulate_dc ::
  "(real list list \<Rightarrow> real list \<Rightarrow> real list option) \<Rightarrow> component list \<Rightarrow> circuit_wire list
     \<Rightarrow> py_error + dc_result" where
  "simulate_dc linalg_solve components ws =
     (case build_node_map components ws of
        Inl e \<Rightarrow> Inl e
      | Inr (node_map, ground_node) \<Rightarrow>
          if ground_node = None then Inr (dc_failure ''No ground node found'')
          else
            (let num_nodes = int (length node_map) - 1;
                 voltage_sources = filter (\<lambda>c. comp_type c = ''battery'') components;
                 num_vsources = int (length voltage_sources);
                 n = num_nodes + num_vsources in
             bind_err (assemble components (zeros2 (nat n)) (zeros1 (nat n)) node_map voltage_sources)
               (\<lambda>(G, I).
                  case linalg_solve G I of
                    None \<Rightarrow> Inr (dc_failure ''Singular matrix - cannot solve circuit'')
                  | Some V \<Rightarrow>
                      bind_err (node_voltages node_map V []) (\<lambda>voltages0.
                      bind_err (component_results components V node_map voltage_sources num_nodes
                                  (voltages0, [])) (\<lambda>(voltages, currents).
                      Inr \<lparr>dc_success = True, dc_error = None, dc_voltages = voltages,
                           dc_currents = currents, dc_node_voltages = Some voltages\<rparr>)))))"

subsection \<open>simulate_ac\<close>

text \<open>\<^verbatim>\<open>np.logspace(start, stop, num)\<close>: \<open>num\<close> points, the exponents evenly spaced.\<close>

definition logspace :: "real \<Rightarrow> real \<Rightarrow> nat \<Rightarrow> real list" where
  "logspace start stop num =
     map (\<lambda>k. 10 powr (start + real k * (stop - start) / real (num - 1))) [0..<num]"

record ac_result =
  ac_success :: bool
  ac_frequencies :: "real list"
  ac_magnitude :: "real list"
  ac_phase :: "real list"

text \<open>The loop appends the placeholders 1.0 and 0.0 once per frequency.\<close>

definition simulate_ac :: "component list \<Rightarrow> circuit_wire list \<Rightarrow> ac_result" where
  "simulate_ac components ws =
     (let frequencies = logspace 0 6 100 in
      \<lparr>ac_success = True, ac_frequencies = frequencies,
       ac_magnitude = map (\<lambda>freq. 1) frequencies,
       ac_phase = map (\<lambda>freq. 0) frequencies\<rparr>)"

subsection \<open>simulate_transient\<close>

text \<open>
  \<^verbatim>\<open>np.arange(start, stop, step)\<close> on Python numbers: the quotient \<^verbatim>\<open>(stop - start) / step\<close>
  raises on a zero step; otherwise the array has as many points as the ceiling of the
  quotient says, none when that is not positive.
\<close>

definition arange :: "real \<Rightarrow> real \<Rightarrow> real \<Rightarrow> py_error + real list" where
  "arange start stop step =
     bind_err (py_div (stop - start) step) (\<lambda>q.
       Inr (map (\<lambda>k. start + real k * step) [0..<nat \<lceil>q\<rceil>]))"

record transient_result =
  tr_success :: bool
  tr_time :: "real list"
  tr_voltages :: "(pykey \<times> real list) list"
  tr_currents :: "(pykey \<times> real list) list"

text \<open>
  \<^verbatim>\<open>if key not in history: history[key] = []\<close> and \<^verbatim>\<open>history[key].append(value)\<close>, for every
  item of one result dict.
\<close>

definition history_append ::
  "(pykey \<times> real) list \<Rightarrow> (pykey \<times> real list) list \<Rightarrow> (pykey \<times> real list) list" where
  "history_append items history =
     fold (\<lambda>(key, value) h. AList.update key (dict_get h key [] @ [value]) h) items history"

text \<open>The loop \<^verbatim>\<open>for t in time_points\<close>: one DC solve per point.\<close>

fun transient_steps ::
  "(real list list \<Rightarrow> real list \<Rightarrow> real list option) \<Rightarrow> component list \<Rightarrow> circuit_wire list
     \<Rightarrow> real list \<Rightarrow> (pykey \<times> real list) list \<times> (pykey \<times> real list) list
     \<Rightarrow> py_error + ((pykey \<times> real list) list \<times> (pykey \<times> real list) list)" where
  "transient_steps linalg_solve components ws [] hist = Inr hist"
| "transient_steps linalg_solve components ws (t # ts) (voltage_history, current_history) =
     (case simulate_dc linalg_solve components ws of
        Inl e \<Rightarrow> Inl e
      | Inr results \<Rightarrow>
          transient_steps linalg_solve components ws ts
            (history_append (dc_voltages results) voltage_history,
             history_append (dc_currents results) current_history))"

definition simulate_transient ::
  "(real list list \<Rightarrow> real list \<Rightarrow> real list option) \<Rightarrow> component list \<Rightarrow> circuit_wire list
     \<Rightarrow> real \<Rightarrow> real \<Rightarrow> py_error + transient_result" where
  "simulate_transient linalg_solve components ws duration time_step =
     bind_err (arange 0 duration time_step) (\<lambda>time_points.
     bind_err (transient_steps linalg_solve components ws time_points ([], []))
       (\<lambda>(voltage_history, current_history).
          Inr \<lparr>tr_success = True, tr_time = time_points, tr_voltages = voltage_history,
               tr_currents = current_history\<rparr>))"

subsection \<open>simulate\<close>

datatype sim_result = DC dc_result | AC ac_result | Transient transient_result

definition simulate ::
  "(real list list \<Rightarrow> real list \<Rightarrow> real list option) \<Rightarrow> component list \<Rightarrow> circuit_wire list
     \<Rightarrow> string \<Rightarrow> real \<Rightarrow> real \<Rightarrow> py_error + sim_result" where
  "simulate linalg_solve components ws simulation_type duration time_step =
     (if simulation_type = ''dc'' then
        bind_err (simulate_dc linalg_solve components ws) (\<lambda>r. Inr (DC r))
      else if simulation_type = ''ac'' then Inr (AC (simulate_ac components ws))
      else if simulation_type = ''transient'' then
        bind_err (simulate_transient linalg_solve components ws duration time_step)
          (\<lambda>r. Inr (Transient r))
      else Inl ValueError)"

section \<open>Well-formed gates and the circuits used as examples\<close>

text \<open>
  A gate as \<^verbatim>\<open>LogicGate.__init__\<close> leaves it and every method keeps it: the input list is
  as long as \<^verbatim>\<open>num_inputs\<close> says; and a NOT or BUFFER gate, which reads \<^verbatim>\<open>inputs[0]\<close>, has
  an input (the route's request model asks for \<^verbatim>\<open>num_inputs >= 1\<close>).
\<close>

definition gate_ok :: "LogicGate \<Rightarrow> bool" where
  "gate_ok g =
     (length (gate_inputs g) = nat (num_inputs g) \<and>
      (if gate_type g = NOT \<or> gate_type g = BUFFER then gate_inputs g \<noteq> [] else True))"

definition gates_ok :: "(string \<times> LogicGate) list \<Rightarrow> bool" where
  "gates_ok gs = list_all (\<lambda>(k, g). gate_ok g) gs"

text \<open>
  A simulator with one rising-edge flip-flop whose D input was set HIGH:
  \<^verbatim>\<open>sim.add_flip_flop("ff1"); sim.flip_flops["ff1"].set_d(LogicLevel.HIGH)\<close>.
\<close>

definition dff_high_sim :: DigitalCircuitSimulator where
  "dff_high_sim =
     (let s = add_flip_flop create_digital_simulator ''ff1'' ''rising''
      in s\<lparr>flip_flops := map (\<lambda>(k, ff). (k, set_d ff HIGH)) (flip_flops s)\<rparr>)"

text \<open>A simulator with a single 2-input AND gate \<^verbatim>\<open>g\<close> and no wire.\<close>

definition and_sim :: DigitalCircuitSimulator where
  "and_sim = add_gate create_digital_simulator ''g'' AND 2 (1 / 1000)"

text \<open>
  The AND gate \<^verbatim>\<open>g\<close> with two BUFFER gates \<^verbatim>\<open>A\<close> and \<^verbatim>\<open>B\<close> as its inputs, each wired to one
  input of \<^verbatim>\<open>g\<close>.
\<close>

definition and_buffered_sim :: DigitalCircuitSimulator where
  "and_buffered_sim =
     add_wire
       (add_wire
          (add_gate
             (add_gate (add_gate create_digital_simulator ''A'' BUFFER 1 (1 / 1000))
                ''B'' BUFFER 1 (1 / 1000))
             ''g'' AND 2 (1 / 1000))
          ''w1'' ''A'' ''output'' ''g'' 0)
       ''w2'' ''B'' ''output'' ''g'' 1"

text \<open>A single gate \<^verbatim>\<open>n\<close> whose output is wired to its own input 0: a NOT gate, a BUFFER.\<close>

definition not_loop :: DigitalCircuitSimulator where
  "not_loop =
     add_wire (add_gate create_digital_simulator ''n'' NOT 1 (1 / 1000)) ''w'' ''n'' ''output'' ''n'' 0"

definition buffer_loop :: DigitalCircuitSimulator where
  "buffer_loop =
     add_wire (add_gate create_digital_simulator ''n'' BUFFER 1 (1 / 1000)) ''w'' ''n'' ''output'' ''n'' 0"

text \<open>
  A battery, two resistors and a ground; terminal 1 of resistor 2 is wired to terminal 0 of
  resistor 3 and to terminal 0 of the battery.
\<close>

definition chain_components :: "component list" where
  "chain_components =
     [\<lparr>comp_id = 1, comp_type = ''battery'', terminals = [''+'', ''-''], props = [(''voltage'', 9)]\<rparr>,
      \<lparr>comp_id = 2, comp_type = ''resistor'', terminals = [''a'', ''b''], props = [(''resistance'', 470)]\<rparr>,
      \<lparr>comp_id = 3, comp_type = ''resistor'', terminals = [''a'', ''b''], props = [(''resistance'', 1000)]\<rparr>,
      \<lparr>comp_id = 4, comp_type = ''ground'', terminals = [''gnd''], props = []\<rparr>]"

definition chain_wires :: "circuit_wire list" where
  "chain_wires =
     [\<lparr>from_comp = CompDict (Some 2), from_term = 1, to_comp = CompDict (Some 3), to_term = 0\<rparr>,
      \<lparr>from_comp = CompDict (Some 1), from_term = 0, to_comp = CompDict (Some 2), to_term = 1\<rparr>]"




text \<open>A resistor whose resistance is zero.\<close>

definition short_resistor :: component where
  "short_resistor =
     \<lparr>comp_id = 2, comp_type = ''resistor'', terminals = [''a'', ''b''],
      props = [(''resistance'', 0)]\<rparr>"

text \<open>
  A wire that \<^verbatim>\<open>propagate\<close> passes over: one of its two gate ids is not among the keys of
  \<^verbatim>\<open>self.gates\<close>.
\<close>

definition wire_skipped :: "string list \<Rightarrow> Wire \<Rightarrow> bool" where
  "wire_skipped keys w = (from_gate w \<notin> set keys \<or> to_gate w \<notin> set keys)"


section \<open>The continuous engine: results\<close>

subsection \<open>AC analysis\<close>

lemma logspace_length: "length (logspace a b n) = n"
  by (simp add: logspace_def)

text \<open>
  Claim C6, as the code has it: whatever the components and wires are (none at all
  included), \<^verbatim>\<open>simulate_ac\<close> reports success and returns the fixed sweep of 100 frequency
  points, each with magnitude 1.0 and phase 0.0. The circuit is not looked at.
\<close>

theorem simulate_ac_fixed_sweep:
  "ac_success (simulate_ac components ws) \<and>
   length (ac_frequencies (simulate_ac components ws)) = 100 \<and>
   ac_magnitude (simulate_ac components ws) = replicate 100 1 \<and>
   ac_phase (simulate_ac components ws) = replicate 100 0"
  by (simp add: simulate_ac_def Let_def logspace_length map_replicate_const)

theorem simulate_ac_fixed_sweep_witness:
  "ac_success (simulate_ac [] []) \<and>
   length (ac_frequencies (simulate_ac [] [])) = 100 \<and>
   ac_magnitude (simulate_ac [] []) = replicate 100 1 \<and>
   ac_phase (simulate_ac [] []) = replicate 100 0"
  using simulate_ac_fixed_sweep [of "[]" "[]"] .

text \<open>
  Claim C6 as stated fails: with no component the response set is not empty.
\<close>

theorem simulate_ac_empty_counterexample:
  "\<not> (ac_success (simulate_ac [] []) \<and> ac_frequencies (simulate_ac [] []) = [] \<and>
      ac_magnitude (simulate_ac [] []) = [] \<and> ac_phase (simulate_ac [] []) = [])"
proof
  assume a: "ac_success (simulate_ac [] []) \<and> ac_frequencies (simulate_ac [] []) = [] \<and>
      ac_magnitude (simulate_ac [] []) = [] \<and> ac_phase (simulate_ac [] []) = []"
  have "length (ac_frequencies (simulate_ac [] [])) = 100"
    by (simp add: simulate_ac_def Let_def logspace_length)
  with a show False by simp
qed

subsection \<open>Transient analysis\<close>






subsection \<open>DC analysis without a ground\<close>









subsection \<open>The node map\<close>

text \<open>
  Claim C4 at a circuit where it fails. Terminal 1 of resistor 2 is wired to terminal 0
  of resistor 3 (first wire) and to terminal 0 of the battery (second wire). The first
  wire sets both of its ends to node 4; the second then sets \<^verbatim>\<open>2_1\<close> and \<^verbatim>\<open>1_0\<close> to node 1 and
  leaves \<^verbatim>\<open>3_0\<close> at node 4: two terminals joined by a wire end on different nodes.
\<close>

theorem build_node_map_chain:
  "build_node_map chain_components chain_wires =
     Inr ([(KInt 4, 0), (KStr ''1_0'', 1), (KStr ''1_1'', 2), (KStr ''2_0'', 3),
           (KStr ''2_1'', 1), (KStr ''3_0'', 4), (KStr ''3_1'', 6)], Some 4)"
  by code_simp

text \<open>
  One step of the merge loop (the part of claim C4 that holds): a wire whose two keys are
  in the map sets both to the lower of their two node numbers, and no other key changes,
  also not a key that stood on the node that was replaced.
\<close>

theorem merge_wire_keeps_lower:
  assumes "comp_ref_id (from_comp w) = Inr from_id" and "comp_ref_id (to_comp w) = Inr to_id"
    and "map_of node_map (term_key from_id (from_term w)) = Some a"
    and "map_of node_map (term_key to_id (to_term w)) = Some b"
  shows "\<exists>node_map'. merge_wire w node_map = Inr node_map' \<and>
           map_of node_map' (term_key from_id (from_term w)) = Some (min a b) \<and>
           map_of node_map' (term_key to_id (to_term w)) = Some (min a b) \<and>
           (\<forall>k. k \<noteq> term_key from_id (from_term w) \<and> k \<noteq> term_key to_id (to_term w) \<longrightarrow>
                map_of node_map' k = map_of node_map k)"
  using assms by (simp add: merge_wire_def Let_def update_conv')

theorem merge_wire_keeps_lower_witness:
  "\<exists>node_map'. merge_wire (hd chain_wires)
        [(KInt 4, 0), (KStr ''1_0'', 1), (KStr ''1_1'', 2), (KStr ''2_0'', 3),
         (KStr ''2_1'', 4), (KStr ''3_0'', 5), (KStr ''3_1'', 6)] = Inr node_map' \<and>
      map_of node_map' (KStr ''2_1'') = Some 4 \<and> map_of node_map' (KStr ''3_0'') = Some 4"
proof -
  have k: "term_key (Some 2) (from_term (hd chain_wires)) = KStr ''2_1''"
    "term_key (Some 3) (to_term (hd chain_wires)) = KStr ''3_0''"
    by code_simp+
  have c: "comp_ref_id (from_comp (hd chain_wires)) = Inr (Some 2)"
    "comp_ref_id (to_comp (hd chain_wires)) = Inr (Some 3)"
    by (simp_all add: chain_wires_def)
  from merge_wire_keeps_lower [OF c, of
      "[(KInt 4, 0), (KStr ''1_0'', 1), (KStr ''1_1'', 2), (KStr ''2_0'', 3),
        (KStr ''2_1'', 4), (KStr ''3_0'', 5), (KStr ''3_1'', 6)]" 4 5]
  show ?thesis unfolding k by auto
qed

subsection \<open>Resistors without a positive resistance\<close>

lemma np_index_not_zde: "np_index n i \<noteq> Inl ZeroDivisionError"
  by (simp add: np_index_def)

lemma mat_add_not_zde: "mat_add G r c x \<noteq> Inl ZeroDivisionError"
  by (auto simp: mat_add_def np_index_def split: sum.splits if_splits)

lemma vec_set_not_zde: "vec_set v i x \<noteq> Inl ZeroDivisionError"
  by (auto simp: vec_set_def np_index_def split: sum.splits if_splits)

lemma vec_get_not_zde: "vec_get v i \<noteq> Inl ZeroDivisionError"
  by (auto simp: vec_get_def np_index_def split: sum.splits if_splits)

lemma list_index_not_zde: "list_index xs x \<noteq> Inl ZeroDivisionError"
  by (induction xs) (auto split: sum.splits)

lemma resistor_conductance_value:
  "resistor_conductance r = Inr (if r > 0 then 1 / r else 0)"
  by (simp add: resistor_conductance_def py_div_def)

lemma resistor_current_value:
  "resistor_current v r = Inr (if r > 0 then v / r else 0)"
  by (simp add: resistor_current_def py_div_def)

lemma bind_err_not_zde:
  "m \<noteq> Inl ZeroDivisionError \<Longrightarrow> (\<And>x. f x \<noteq> Inl ZeroDivisionError) \<Longrightarrow>
   bind_err m f \<noteq> Inl ZeroDivisionError"
  by (cases m) (auto simp: bind_err_def)

lemma add_component_to_mna_not_zde:
  "add_component_to_mna c G I node_map voltage_sources \<noteq> Inl ZeroDivisionError"
  unfolding add_component_to_mna_def Let_def resistor_conductance_value
  by (intro bind_err_not_zde mat_add_not_zde vec_set_not_zde list_index_not_zde 
        | simp add: mat_add_not_zde split del: if_split | rule conjI impI | split if_split)+

lemma assemble_not_zde:
  "assemble components G I node_map voltage_sources \<noteq> Inl ZeroDivisionError"
  by (induction components arbitrary: G I)
     (auto simp: add_component_to_mna_not_zde split: sum.splits)

lemma get_component_voltage_not_zde:
  "get_component_voltage c V node_map \<noteq> Inl ZeroDivisionError"
  unfolding get_component_voltage_def Let_def
  by (intro bind_err_not_zde | simp add: vec_get_not_zde)+

lemma component_results_not_zde:
  "component_results components V node_map voltage_sources num_nodes vc \<noteq> Inl ZeroDivisionError"
proof (induction components arbitrary: vc)
  case Nil
  then show ?case by simp
next
  case (Cons c cs)
  obtain voltages currents where vc: "vc = (voltages, currents)" by (cases vc)
  show ?case
    unfolding vc
    by (auto simp: Cons.IH get_component_voltage_not_zde resistor_current_value
          list_index_not_zde vec_get_not_zde split: sum.splits)
qed


lemma simulate_dc_not_zde:
  "simulate_dc linalg_solve components ws \<noteq> Inl ZeroDivisionError"
proof -
  have nv: "node_voltages nm V acc \<noteq> Inl ZeroDivisionError" for nm V acc
    by (induction nm V acc rule: node_voltages.induct)
       (auto simp: vec_get_not_zde split: sum.splits)
  have be: "m = Inl e \<or> (\<exists>x. m = Inr x \<and> f x = Inl e)" if "bind_err m f = Inl e"
    for m :: "py_error + 'x" and f :: "'x \<Rightarrow> py_error + 'y" and e
    using that by (cases m) (auto simp: bind_err_def)
  have cr: "comp_ref_id c \<noteq> Inl ZeroDivisionError" for c
    by (cases c) simp_all
  have mw: "merge_wires ws0 nm \<noteq> Inl ZeroDivisionError" for ws0 nm
    by (induction ws0 arbitrary: nm)
       (auto simp: merge_wire_def Let_def cr split: sum.splits option.splits)
  have bn: "build_node_map components ws \<noteq> Inl ZeroDivisionError"
    using mw by (auto simp: build_node_map_def Let_def split: prod.splits sum.splits)
  show ?thesis
    unfolding simulate_dc_def Let_def
    using bn
    by (auto simp: nv component_results_not_zde assemble_not_zde
          split: prod.splits option.splits sum.splits dest!: be)
qed

lemma mat_add_zero: "mat_add G r c 0 = Inr G' \<Longrightarrow> G' = G"
  by (auto simp: mat_add_def split: sum.splits)

lemma resistor_open_circuit:
  assumes "comp_type c = ''resistor''" "dict_get (props c) ''resistance'' 1000 \<le> 0"
    and "add_component_to_mna c G I node_map voltage_sources = Inr (G', I')"
  shows "G' = G \<and> I' = I"
  using assms
  unfolding add_component_to_mna_def Let_def resistor_conductance_value
  by (auto simp: bind_err_def split: sum.splits if_splits dest!: mat_add_zero)

text \<open>
  Claim C9: a resistance that is not positive is handled by an explicit test. The
  conductance stamped and the current derived are then the constant 0, and neither the
  assembly loop, nor the loop that derives the component currents, nor \<^verbatim>\<open>simulate_dc\<close> as
  a whole ever raises \<^verbatim>\<open>ZeroDivisionError\<close>, for any component list.
\<close>

theorem resistor_no_division_by_zero:
  "(r \<le> 0 \<longrightarrow> resistor_conductance r = Inr 0 \<and> resistor_current v r = Inr 0) \<and>
   assemble components G I node_map voltage_sources \<noteq> Inl ZeroDivisionError \<and>
   component_results components V node_map voltage_sources num_nodes vc \<noteq> Inl ZeroDivisionError \<and>
   simulate_dc linalg_solve components ws \<noteq> Inl ZeroDivisionError"
  by (simp add: resistor_conductance_value resistor_current_value assemble_not_zde
        component_results_not_zde simulate_dc_not_zde)

theorem resistor_no_division_by_zero_witness:
  "resistor_conductance 0 = Inr 0 \<and> resistor_current 5 0 = Inr 0 \<and>
   assemble [short_resistor] (zeros2 2) (zeros1 2) [(KStr ''2_0'', 1), (KStr ''2_1'', 2)] []
     \<noteq> Inl ZeroDivisionError \<and>
   component_results [short_resistor] [5, 0] [(KStr ''2_0'', 1), (KStr ''2_1'', 2)] [] 2 ([], [])
     \<noteq> Inl ZeroDivisionError"
  using resistor_no_division_by_zero [of 0 5 "[short_resistor]" "zeros2 2" "zeros1 2"
      "[(KStr ''2_0'', 1), (KStr ''2_1'', 2)]" "[]" "[5, 0]" 2 "([], [])"]
  by simp

section \<open>The digital simulator: results\<close>

subsection \<open>What a propagation keeps\<close>

lemma gates_ok_lookup: "gates_ok gs \<Longrightarrow> map_of gs k = Some g \<Longrightarrow> gate_ok g"
  by (auto simp: gates_ok_def list_all_iff dest: map_of_SomeD)

lemma gates_ok_update: "gates_ok gs \<Longrightarrow> gate_ok g \<Longrightarrow> gates_ok (AList.update k g gs)"
  by (induction gs) (auto simp: gates_ok_def)

lemma update_keys_present:
  "map_of gs k = Some g \<Longrightarrow> map fst (AList.update k g' gs) = map fst gs"
  by (induction gs) (auto split: if_splits)

lemma set_input_ok:
  "gate_ok g \<Longrightarrow> \<exists>g'. LogicGate_set_input g i v = Inr g' \<and> gate_ok g'"
  by (auto simp: LogicGate_set_input_def gate_ok_def split: if_splits)

lemma evaluate_ok: "gate_ok g \<Longrightarrow> \<exists>l. LogicGate_evaluate g = Inr l"
  by (cases "gate_type g"; cases "gate_inputs g")
     (auto simp: LogicGate_evaluate_def gate_ok_def Let_def)

lemma update_ok:
  assumes "gate_ok g"
  shows "\<exists>c g'. LogicGate_update g t = Inr (c, g') \<and> gate_ok g'"
proof -
  from evaluate_ok [OF assms] obtain l where l: "LogicGate_evaluate g = Inr l" by blast
  show ?thesis
  proof (cases "l = gate_output g")
    case True
    with l assms show ?thesis by (auto simp add: LogicGate_update_def)
  next
    case False
    have "gate_ok (g\<lparr>gate_output := l, last_update_time := t\<rparr>)"
      using assms by (simp add: gate_ok_def)
    with l False show ?thesis by (auto simp add: LogicGate_update_def)
  qed
qed

lemma update_gates_ok:
  "gates_ok gs \<Longrightarrow> \<exists>c gs'. update_gates t gs = Inr (c, gs') \<and> gates_ok gs'"
proof (induction gs)
  case Nil
  then show ?case by (auto simp add: gates_ok_def)
next
  case (Cons kg gs)
  obtain k g where kg: "kg = (k, g)" by (cases kg)
  from Cons.prems kg have g: "gate_ok g" and gs: "gates_ok gs"
    by (simp_all add: gates_ok_def)
  from update_ok [OF g] obtain c g' where u: "LogicGate_update g t = Inr (c, g')" "gate_ok g'"
    by blast
  from Cons.IH [OF gs] obtain cs gs' where r: "update_gates t gs = Inr (cs, gs')" "gates_ok gs'"
    by blast
  have "update_gates t (kg # gs) = Inr (c \<or> cs, (k, g') # gs')"
    using u r by (simp add: kg)
  moreover have "gates_ok ((k, g') # gs')"
    using u r by (simp add: gates_ok_def)
  ultimately show ?case by blast
qed

lemma update_gates_keys:
  "update_gates t gs = Inr (c, gs') \<Longrightarrow> map fst gs' = map fst gs"
  by (induction gs arbitrary: c gs') (auto split: sum.splits)

lemma push_wire_keys: "push_wire w gs = Inr (w', gs') \<Longrightarrow> map fst gs' = map fst gs"
  by (auto simp: push_wire_def update_keys_present split: option.splits sum.splits)

lemma push_wire_skip: "wire_skipped (map fst gs) w \<Longrightarrow> push_wire w gs = Inr (w, gs)"
  by (auto simp: push_wire_def wire_skipped_def map_of_eq_None_iff [symmetric]
        split: option.splits)

lemma push_wire_ok:
  assumes "gates_ok gs"
  shows "\<exists>w' gs'. push_wire w gs = Inr (w', gs') \<and> gates_ok gs'"
proof (cases "map_of gs (from_gate w)")
  case None
  then show ?thesis using assms by (simp add: push_wire_def)
next
  case (Some fg)
  show ?thesis
  proof (cases "map_of gs (to_gate w)")
    case None
    then show ?thesis using assms Some by (simp add: push_wire_def)
  next
    case tg: (Some tg)
    from gates_ok_lookup [OF assms tg] have "gate_ok tg" .
    from set_input_ok [OF this] obtain tg' where
      "LogicGate_set_input tg (to_input w) (gate_output fg) = Inr tg'" "gate_ok tg'" by blast
    then show ?thesis using Some tg assms by (simp add: push_wire_def gates_ok_update)
  qed
qed

lemma push_wires_ok:
  "gates_ok gs \<Longrightarrow> \<exists>ws' gs'. push_wires ws gs = Inr (ws', gs') \<and> gates_ok gs'"
proof (induction ws arbitrary: gs)
  case Nil
  then show ?case by simp
next
  case (Cons w ws)
  from push_wire_ok [OF Cons.prems] obtain w' gs1 where
    a: "push_wire w gs = Inr (w', gs1)" "gates_ok gs1" by blast
  from Cons.IH [OF a(2)] obtain ws' gs' where
    b: "push_wires ws gs1 = Inr (ws', gs')" "gates_ok gs'" by blast
  show ?case using a b by simp
qed

lemma push_wires_frame:
  "push_wires ws gs = Inr (ws', gs') \<Longrightarrow>
   map fst gs' = map fst gs \<and> length ws' = length ws \<and>
   (\<forall>k < length ws. wire_skipped (map fst gs) (ws ! k) \<longrightarrow> ws' ! k = ws ! k)"
proof (induction ws arbitrary: gs ws' gs')
  case Nil
  then show ?case by simp
next
  case (Cons w ws)
  from Cons.prems obtain w' gs1 ws1 where
    a: "push_wire w gs = Inr (w', gs1)" and b: "push_wires ws gs1 = Inr (ws1, gs')"
    and c: "ws' = w' # ws1"
    by (auto split: sum.splits)
  from push_wire_keys [OF a] have k1: "map fst gs1 = map fst gs" .
  from Cons.IH [OF b] k1 have ih: "map fst gs' = map fst gs" "length ws1 = length ws"
    "\<forall>k < length ws. wire_skipped (map fst gs) (ws ! k) \<longrightarrow> ws1 ! k = ws ! k"
    by simp_all
  have "(w' # ws1) ! k = (w # ws) ! k"
    if "k < length (w # ws)" "wire_skipped (map fst gs) ((w # ws) ! k)" for k
  proof (cases k)
    case 0
    with that a push_wire_skip [of gs w] show ?thesis by simp
  next
    case (Suc j)
    with that ih(3) show ?thesis by simp
  qed
  with ih c show ?case by simp
qed


declare propagate_loop.simps [simp del]

lemma propagate_loop_frame:
  "propagate_loop ch it s = Inr (n, s') \<Longrightarrow>
     map fst (gates s') = map fst (gates s) \<and> length (wires s') = length (wires s) \<and>
     (\<forall>k < length (wires s). wire_skipped (map fst (gates s)) (wires s ! k)
          \<longrightarrow> wires s' ! k = wires s ! k) \<and>
     flip_flops s' = flip_flops s \<and> console s' = console s \<and> inputs s' = inputs s \<and>
     current_time s' = current_time s \<and> it \<le> n \<and> n \<le> max it max_iterations \<and>
     (ch \<and> it < max_iterations \<longrightarrow> it < n)"
proof (induction ch it s arbitrary: n s' rule: propagate_loop.induct)
  case (1 changes iterations s)
  show ?case
  proof (cases "changes \<and> iterations < max_iterations")
    case False
    then have "propagate_loop changes iterations s = Inr (iterations, s)"
      by (subst propagate_loop.simps) auto
    with "1.prems" False show ?thesis by auto
  next
    case True
    then have eq: "propagate_loop changes iterations s =
        (case update_gates (current_time s) (gates s) of
           Inl e \<Rightarrow> Inl e
         | Inr (changes', gs) \<Rightarrow>
             (case push_wires (wires s) gs of
                Inl e \<Rightarrow> Inl e
              | Inr (ws', gs') \<Rightarrow>
                  propagate_loop changes' (iterations + 1) (s\<lparr>gates := gs', wires := ws'\<rparr>)))"
      by (subst propagate_loop.simps) simp
    from "1.prems" obtain ch' gs ws' gs' where
      u: "update_gates (current_time s) (gates s) = Inr (ch', gs)" and
      p: "push_wires (wires s) gs = Inr (ws', gs')" and
      l: "propagate_loop ch' (iterations + 1) (s\<lparr>gates := gs', wires := ws'\<rparr>) = Inr (n, s')"
      unfolding eq by (auto split: sum.splits)
    note ih = "1.IH" [OF True u refl p refl l]
    from update_gates_keys [OF u] have k1: "map fst gs = map fst (gates s)" .
    from push_wires_frame [OF p] k1 have
      k2: "map fst gs' = map fst (gates s)" and len: "length ws' = length (wires s)" and
      fr: "\<forall>k < length (wires s). wire_skipped (map fst (gates s)) (wires s ! k)
            \<longrightarrow> ws' ! k = wires s ! k"
      by simp_all
    from ih k2 len fr True show ?thesis by auto
  qed
qed

lemma propagate_loop_ok:
  "gates_ok (gates s) \<Longrightarrow>
     \<exists>n s'. propagate_loop ch it s = Inr (n, s') \<and> gates_ok (gates s')"
proof (induction ch it s rule: propagate_loop.induct)
  case (1 changes iterations s)
  show ?case
  proof (cases "changes \<and> iterations < max_iterations")
    case False
    then have "propagate_loop changes iterations s = Inr (iterations, s)"
      by (subst propagate_loop.simps) auto
    with "1.prems" False show ?thesis by auto
  next
    case True
    from update_gates_ok [OF "1.prems"] obtain ch' gs where
      u: "update_gates (current_time s) (gates s) = Inr (ch', gs)" and g1: "gates_ok gs"
      by blast
    from push_wires_ok [OF g1] obtain ws' gs' where
      p: "push_wires (wires s) gs = Inr (ws', gs')" and g2: "gates_ok gs'" by blast
    from "1.IH" [OF True u refl p refl] g2 obtain n s' where
      "propagate_loop ch' (iterations + 1) (s\<lparr>gates := gs', wires := ws'\<rparr>) = Inr (n, s')"
      "gates_ok (gates s')" by auto
    moreover from True have "propagate_loop changes iterations s =
        (case update_gates (current_time s) (gates s) of
           Inl e \<Rightarrow> Inl e
         | Inr (changes', gs) \<Rightarrow>
             (case push_wires (wires s) gs of
                Inl e \<Rightarrow> Inl e
              | Inr (ws', gs') \<Rightarrow>
                  propagate_loop changes' (iterations + 1) (s\<lparr>gates := gs', wires := ws'\<rparr>)))"
      by (subst propagate_loop.simps) simp
    ultimately show ?thesis using u p by simp
  qed
qed

lemma propagate_passes_frame:
  assumes "propagate_passes s = Inr (n, s')"
  shows "map fst (gates s') = map fst (gates s) \<and> length (wires s') = length (wires s) \<and>
     (\<forall>k < length (wires s). wire_skipped (map fst (gates s)) (wires s ! k)
          \<longrightarrow> wires s' ! k = wires s ! k) \<and>
     flip_flops s' = flip_flops s \<and> console s' = console s \<and> inputs s' = inputs s \<and>
     current_time s' = current_time s \<and> 1 \<le> n \<and> n \<le> max_iterations"
proof -
  from assms obtain ws1 gs1 where
    p: "push_wires (wires s) (gates s) = Inr (ws1, gs1)" and
    l: "propagate_loop True 0 (s\<lparr>gates := gs1, wires := ws1\<rparr>) = Inr (n, s')"
    by (auto simp: propagate_passes_def split: sum.splits)
  from push_wires_frame [OF p] have
    k: "map fst gs1 = map fst (gates s)" and len: "length ws1 = length (wires s)" and
    fr: "\<forall>k < length (wires s). wire_skipped (map fst (gates s)) (wires s ! k)
            \<longrightarrow> ws1 ! k = wires s ! k"
    by simp_all
  from propagate_loop_frame [OF l] k len fr show ?thesis
    by (auto simp: max_iterations_def)
qed

lemma propagate_passes_ok:
  assumes "gates_ok (gates s)"
  shows "\<exists>n s'. propagate_passes s = Inr (n, s') \<and> gates_ok (gates s')"
proof -
  from push_wires_ok [OF assms] obtain ws1 gs1 where
    p: "push_wires (wires s) (gates s) = Inr (ws1, gs1)" and g: "gates_ok gs1" by blast
  from propagate_loop_ok [of "s\<lparr>gates := gs1, wires := ws1\<rparr>" True 0] g
  show ?thesis using p by (auto simp: propagate_passes_def)
qed

lemma propagate_frame:
  assumes "propagate s = Inr s'"
  shows "map fst (gates s') = map fst (gates s) \<and> length (wires s') = length (wires s) \<and>
     (\<forall>k < length (wires s). wire_skipped (map fst (gates s)) (wires s ! k)
          \<longrightarrow> wires s' ! k = wires s ! k) \<and>
     flip_flops s' = flip_flops s \<and> inputs s' = inputs s \<and>
     current_time s' = current_time s"
proof -
  from assms obtain n s1 where p: "propagate_passes s = Inr (n, s1)" and
    s': "s' = (if n \<ge> max_iterations then s1\<lparr>console := console s1 @ [loop_warning]\<rparr> else s1)"
    by (auto simp: propagate_def split: sum.splits)
  from propagate_passes_frame [OF p] s' show ?thesis by auto
qed

lemma propagate_ok:
  assumes "gates_ok (gates s)"
  shows "\<exists>s'. propagate s = Inr s' \<and> gates_ok (gates s')"
  using propagate_passes_ok [OF assms] by (auto simp: propagate_def)

text \<open>
  Claim C5, as the code has it: \<^verbatim>\<open>propagate\<close> makes at least one and at most
  \<^verbatim>\<open>max_iterations = 100\<close> passes and then returns; with well-formed gates it always gets
  there (otherwise a gate that reads a missing input ends it with \<^verbatim>\<open>IndexError\<close>). When
  the number of passes reaches the cap, the one thing that tells of it is a line printed
  to the console; \<^verbatim>\<open>propagate\<close> itself returns nothing.
\<close>

theorem propagate_pass_bound:
  "(\<forall>n s'. propagate_passes s = Inr (n, s') \<longrightarrow>
       1 \<le> n \<and> n \<le> max_iterations \<and>
       propagate s = Inr (s'\<lparr>console := (if n = max_iterations
                                          then console s @ [loop_warning] else console s)\<rparr>)) \<and>
   (\<forall>e. propagate_passes s = Inl e \<longrightarrow> propagate s = Inl e) \<and>
   (gates_ok (gates s) \<longrightarrow> (\<exists>n s'. propagate_passes s = Inr (n, s')))"
proof -
  have A: "1 \<le> n \<and> n \<le> max_iterations \<and>
       propagate s = Inr (s'\<lparr>console := (if n = max_iterations
                                          then console s @ [loop_warning] else console s)\<rparr>)"
    if p: "propagate_passes s = Inr (n, s')" for n s'
  proof -
    from propagate_passes_frame [OF p] have
      c: "console s' = console s" and n: "1 \<le> n" "n \<le> max_iterations" by simp_all
    from c [symmetric] have "s'\<lparr>console := console s\<rparr> = s'" by simp
    with p c n show ?thesis by (auto simp: propagate_def)
  qed
  have B: "propagate s = Inl e" if "propagate_passes s = Inl e" for e
    using that by (simp add: propagate_def)
  have C: "\<exists>n s'. propagate_passes s = Inr (n, s')" if "gates_ok (gates s)"
    using propagate_passes_ok [OF that] by blast
  from A B C show ?thesis by blast
qed

lemma gates_ok_not_loop: "gates_ok (gates not_loop)"
  by (simp add: not_loop_def add_wire_def add_gate_def create_digital_simulator_def
        gates_ok_def gate_ok_def LogicGate_init_def)

theorem propagate_pass_bound_witness:
  "\<exists>n s'. propagate_passes not_loop = Inr (n, s') \<and> 1 \<le> n \<and> n \<le> max_iterations \<and>
       propagate not_loop = Inr (s'\<lparr>console := (if n = max_iterations
                                          then console not_loop @ [loop_warning] else console not_loop)\<rparr>)"
  using propagate_pass_bound [of not_loop] gates_ok_not_loop by blast

text \<open>
  Claim C5 as stated fails: the cap is not reported in what a run returns. The truth
  table of the NOT gate wired to itself, whose two propagations both run into the cap and
  print the warning, is the very value returned for the BUFFER wired to itself, which
  settles at once and prints nothing.
\<close>

theorem propagate_cap_not_in_result_counterexample:
  "map_sum id fst (get_truth_table not_loop [''n''] [''n'']) =
     Inr [\<lparr>row_inputs = [(''n'', 0)], row_outputs = [(''n'', 0)]\<rparr>,
          \<lparr>row_inputs = [(''n'', 1)], row_outputs = [(''n'', 1)]\<rparr>] \<and>
   map_sum id (console \<circ> snd) (get_truth_table not_loop [''n''] [''n'']) =
     Inr [loop_warning, loop_warning] \<and>
   map_sum id fst (get_truth_table buffer_loop [''n''] [''n'']) =
     Inr [\<lparr>row_inputs = [(''n'', 0)], row_outputs = [(''n'', 0)]\<rparr>,
          \<lparr>row_inputs = [(''n'', 1)], row_outputs = [(''n'', 1)]\<rparr>] \<and>
   map_sum id (console \<circ> snd) (get_truth_table buffer_loop [''n''] [''n'']) = Inr []"
  by code_simp




subsection \<open>The clock-cycle driver and a D flip-flop\<close>

text \<open>
  Edge detection of a flip-flop that is driven by \<^verbatim>\<open>set_clock\<close>: on the configured edge Q
  captures D, and without an edge \<^verbatim>\<open>update\<close> changes nothing.
\<close>

theorem flip_flop_edge_capture:
  "(edge_trigger ff = ''rising'' \<and> clock ff = LOW \<longrightarrow>
      q_output (snd (FlipFlop_update (set_clock ff HIGH))) = d_input ff) \<and>
   (edge_trigger ff = ''falling'' \<and> clock ff = HIGH \<longrightarrow>
      q_output (snd (FlipFlop_update (set_clock ff LOW))) = d_input ff) \<and>
   (\<not> edge_detected ff \<longrightarrow> FlipFlop_update ff = (False, ff))"
  by (auto simp: FlipFlop_update_def set_clock_def edge_detected_def Let_def)

theorem flip_flop_edge_capture_witness:
  "q_output (snd (FlipFlop_update (set_clock (set_d (FlipFlop_init ''ff1'' ''rising'') HIGH) HIGH))) = HIGH"
  using flip_flop_edge_capture [of "set_d (FlipFlop_init ''ff1'' ''rising'') HIGH"]
  by (simp add: set_d_def FlipFlop_init_def)

lemma flip_flops_dff_high:
  "flip_flops dff_high_sim =
     [(''ff1'', \<lparr>ff_id = ''ff1'', edge_trigger = ''rising'', d_input = HIGH, clock = LOW,
                 previous_clock = LOW, q_output = LOW, q_not_output = HIGH\<rparr>)]"
  by (simp add: dff_high_sim_def add_flip_flop_def create_digital_simulator_def
        FlipFlop_init_def set_d_def Let_def)

lemma propagate_no_gates:
  assumes "gates s = []" "wires s = []"
  shows "\<exists>s'. propagate s = Inr s' \<and> gates s' = [] \<and> wires s' = [] \<and>
              flip_flops s' = flip_flops s"
proof -
  from assms have "gates_ok (gates s)" by (simp add: gates_ok_def)
  from propagate_ok [OF this] obtain s' where p: "propagate s = Inr s'" by blast
  from propagate_frame [OF p] assms p show ?thesis by simp
qed

lemma clock_edge_dff:
  assumes "gates s = []" "wires s = []" "flip_flops s = flip_flops dff_high_sim"
  shows "\<exists>s'. clock_edge clock_signal level cycle e s =
                 Inr (\<lparr>snap_cycle = cycle, snap_edge = e, snap_gates = [],
                       snap_flip_flops = [(''ff1'', 0)]\<rparr>, s') \<and>
              gates s' = [] \<and> wires s' = [] \<and> flip_flops s' = flip_flops dff_high_sim"
proof -
  have "gates (set_input s clock_signal level) = []" "wires (set_input s clock_signal level) = []"
    using assms by (simp_all add: set_input_def)
  from propagate_no_gates [OF this] obtain s1 where
    p: "propagate (set_input s clock_signal level) = Inr s1" and
    s1: "gates s1 = []" "wires s1 = []" "flip_flops s1 = flip_flops s"
    by (auto simp: set_input_def)
  have u: "update_flip_flops (flip_flops s1) = flip_flops dff_high_sim"
    using s1 assms
    by (simp add: flip_flops_dff_high update_flip_flops_def FlipFlop_update_def edge_detected_def)
  show ?thesis
    using p s1 u by (simp add: clock_edge_def Let_def record_state_def flip_flops_dff_high)
qed

lemma clock_cycles_dff:
  assumes "gates s = []" "wires s = []" "flip_flops s = flip_flops dff_high_sim"
  shows "\<exists>snaps s'. clock_cycles clock_signal cycles s = Inr (snaps, s') \<and>
           length snaps = 2 * length cycles \<and>
           list_all (\<lambda>sn. snap_flip_flops sn = [(''ff1'', level_value LOW)]) snaps"
  using assms
proof (induction cycles arbitrary: s)
  case Nil
  then show ?case by simp
next
  case (Cons cycle cycles)
  from clock_edge_dff [OF Cons.prems] obtain s1 where
    e1: "clock_edge clock_signal HIGH cycle ''rising'' s =
           Inr (\<lparr>snap_cycle = cycle, snap_edge = ''rising'', snap_gates = [],
                 snap_flip_flops = [(''ff1'', 0)]\<rparr>, s1)" and
    s1: "gates s1 = []" "wires s1 = []" "flip_flops s1 = flip_flops dff_high_sim" by blast
  from clock_edge_dff [OF s1] obtain s2 where
    e2: "clock_edge clock_signal LOW cycle ''falling'' s1 =
           Inr (\<lparr>snap_cycle = cycle, snap_edge = ''falling'', snap_gates = [],
                 snap_flip_flops = [(''ff1'', 0)]\<rparr>, s2)" and
    s2: "gates s2 = []" "wires s2 = []" "flip_flops s2 = flip_flops dff_high_sim" by blast
  from Cons.IH [OF s2] obtain snaps s3 where
    r: "clock_cycles clock_signal cycles s2 = Inr (snaps, s3)"
       "length snaps = 2 * length cycles"
       "list_all (\<lambda>sn. snap_flip_flops sn = [(''ff1'', level_value LOW)]) snaps" by blast
  show ?case using e1 e2 r by simp
qed

text \<open>
  Claim C2 at a simulator where it fails: one rising-edge flip-flop \<^verbatim>\<open>ff1\<close> with D held
  HIGH. \<^verbatim>\<open>simulate_clock_cycle\<close> stores the clock level in \<^verbatim>\<open>self.inputs\<close> only and never
  calls \<^verbatim>\<open>set_clock\<close>, so the flip-flop's \<^verbatim>\<open>clock\<close> and \<^verbatim>\<open>previous_clock\<close> stay LOW and no
  edge is ever seen: for every clock name and every number of cycles the call returns
  two snapshots per cycle, and each of them shows Q = 0 (LOW).
\<close>

theorem dff_q_stays_low:
  "\<exists>snaps s'. simulate_clock_cycle dff_high_sim clock_signal num_cycles = Inr (snaps, s') \<and>
       length snaps = 2 * nat num_cycles \<and>
       list_all (\<lambda>sn. snap_flip_flops sn = [(''ff1'', level_value LOW)]) snaps"
proof -
  have "gates dff_high_sim = []" "wires dff_high_sim = []"
    by (simp_all add: dff_high_sim_def add_flip_flop_def create_digital_simulator_def Let_def)
  from clock_cycles_dff [OF this refl, of clock_signal "map int [0..<nat num_cycles]"]
  show ?thesis by (simp add: simulate_clock_cycle_def)
qed

subsection \<open>Truth tables\<close>

lemma gate_ok_output: "gate_ok (g\<lparr>gate_output := l\<rparr>) = gate_ok g"
  by (simp add: gate_ok_def)

lemma set_combination_gates_ok:
  "gates_ok (gates s) \<Longrightarrow> gates_ok (gates (fst (set_combination i j names s iv)))"
proof (induction names arbitrary: j s iv)
  case Nil
  then show ?case by simp
next
  case (Cons name names)
  show ?case
  proof (cases "map_of (gates s) name")
    case None
    with Cons.prems show ?thesis
      by (simp add: Let_def set_input_def Cons.IH)
  next
    case (Some g)
    from gates_ok_lookup [OF Cons.prems Some] have "gate_ok g" .
    with Cons.prems have "gates_ok (AList.update name (g\<lparr>gate_output := (if bit_of i j \<noteq> 0 then HIGH else LOW)\<rparr>) (gates s))"
      by (intro gates_ok_update) (simp_all add: gate_ok_output)
    with Some show ?thesis
      by (simp add: Let_def set_input_def Cons.IH)
  qed
qed

lemma set_combination_values_other:
  "name \<notin> set names \<Longrightarrow>
     map_of (snd (set_combination i j names s iv)) name = map_of iv name"
  by (induction names arbitrary: j s iv) (auto simp: Let_def update_conv')

lemma set_combination_values:
  "distinct names \<Longrightarrow> k < length names \<Longrightarrow>
     map_of (snd (set_combination i j names s iv)) (names ! k) = Some (bit_of i (j + k))"
proof (induction names arbitrary: j k s iv)
  case Nil
  then show ?case by simp
next
  case (Cons name names)
  show ?case
  proof (cases k)
    case 0
    with Cons.prems show ?thesis
      by (simp add: Let_def set_combination_values_other update_conv')
  next
    case (Suc k')
    with Cons.prems Cons.IH [of k' "Suc j"] show ?thesis
      by (simp add: Let_def)
  qed
qed

lemma set_combination_inputs_other:
  "name \<notin> set names \<Longrightarrow>
     map_of (inputs (fst (set_combination i j names s iv))) name = map_of (inputs s) name"
  by (induction names arbitrary: j s iv)
     (auto simp: Let_def set_input_def update_conv' split: option.splits)

lemma set_combination_gates_other:
  "name \<notin> set names \<Longrightarrow>
     map_of (gates (fst (set_combination i j names s iv))) name = map_of (gates s) name"
  by (induction names arbitrary: j s iv)
     (auto simp: Let_def set_input_def update_conv' split: option.splits)

lemma set_combination_forces:
  "distinct names \<Longrightarrow> k < length names \<Longrightarrow>
     map_of (inputs (fst (set_combination i j names s iv))) (names ! k) =
       Some (if bit_of i (j + k) \<noteq> 0 then HIGH else LOW) \<and>
     map_of (gates (fst (set_combination i j names s iv))) (names ! k) =
       map_option (\<lambda>g. g\<lparr>gate_output := (if bit_of i (j + k) \<noteq> 0 then HIGH else LOW)\<rparr>)
         (map_of (gates s) (names ! k))"
proof (induction names arbitrary: j k s iv)
  case Nil
  then show ?case by simp
next
  case (Cons name names)
  show ?case
  proof (cases k)
    case 0
    with Cons.prems show ?thesis
      by (auto simp: Let_def set_combination_inputs_other set_combination_gates_other
            set_input_def update_conv' split: option.splits)
  next
    case (Suc k')
    from Cons.prems Suc have ne: "names ! k' \<noteq> name" and k': "k' < length names"
      and d: "distinct names" by auto
    from Cons.IH [OF d k', where j = "Suc j"] Suc ne show ?thesis
      by (auto simp: Let_def set_input_def update_conv' split: option.splits)
  qed
qed

lemma truth_rows_frame:
  "truth_rows ins outs cs s = Inr (rows, s') \<Longrightarrow>
     length rows = length cs \<and>
     (\<forall>k < length cs. \<exists>s0. row_inputs (rows ! k) = snd (set_combination (cs ! k) 0 ins s0 []))"
proof (induction cs arbitrary: s rows s')
  case Nil
  then show ?case by simp
next
  case (Cons c cs)
  obtain s1 iv where sc: "set_combination c 0 ins s [] = (s1, iv)"
    by (cases "set_combination c 0 ins s []")
  with Cons.prems obtain s2 rows1 where
    p: "propagate s1 = Inr s2" and r: "truth_rows ins outs cs s2 = Inr (rows1, s')" and
    rows: "rows = \<lparr>row_inputs = iv, row_outputs = read_outputs outs (gates s2)\<rparr> # rows1"
    by (auto split: sum.splits)
  from Cons.IH [OF r] have ih: "length rows1 = length cs"
    "\<forall>k < length cs. \<exists>s0. row_inputs (rows1 ! k) = snd (set_combination (cs ! k) 0 ins s0 [])"
    by simp_all
  have "\<exists>s0. row_inputs (rows ! k) = snd (set_combination ((c # cs) ! k) 0 ins s0 [])"
    if "k < length (c # cs)" for k
  proof (cases k)
    case 0
    with sc rows show ?thesis by (auto intro: exI [of _ s])
  next
    case (Suc k')
    with that ih rows show ?thesis by simp
  qed
  with ih rows show ?case by simp
qed

lemma truth_rows_ok:
  "gates_ok (gates s) \<Longrightarrow> \<exists>rows s'. truth_rows ins outs cs s = Inr (rows, s')"
proof (induction cs arbitrary: s)
  case Nil
  then show ?case by simp
next
  case (Cons c cs)
  obtain s1 iv where sc: "set_combination c 0 ins s [] = (s1, iv)"
    by (cases "set_combination c 0 ins s []")
  from set_combination_gates_ok [OF Cons.prems, of c 0 ins "[]"] sc have "gates_ok (gates s1)"
    by simp
  from propagate_ok [OF this] obtain s2 where p: "propagate s1 = Inr s2" "gates_ok (gates s2)"
    by blast
  from Cons.IH [OF p(2)] obtain rows s' where "truth_rows ins outs cs s2 = Inr (rows, s')"
    by blast
  with sc p show ?case by simp
qed

text \<open>
  The size and the order of a truth table (the part of claim C3 that holds on the code):
  whenever \<^verbatim>\<open>get_truth_table\<close> returns, the table has
  exactly \<open>2 ^ n\<close> rows for \<open>n\<close> input names, and with distinct names row \<open>i\<close> records for
  input \<open>j\<close> the bit \<^verbatim>\<open>(i >> j) & 1\<close>: the rows stand in increasing order of the
  combination's integer value. Before each propagation the level of that bit is stored
  under the input's name in \<^verbatim>\<open>self.inputs\<close> and written to the output of the gate of that
  name, when there is one. With well-formed gates the call always returns.
\<close>

theorem get_truth_table_rows:
  "(\<forall>rows s'. get_truth_table s input_names output_names = Inr (rows, s') \<longrightarrow>
      length rows = 2 ^ length input_names \<and>
      (distinct input_names \<longrightarrow>
         (\<forall>i < 2 ^ length input_names. \<forall>j < length input_names.
            map_of (row_inputs (rows ! i)) (input_names ! j) = Some (bit_of i j)))) \<and>
   (distinct input_names \<longrightarrow>
      (\<forall>i. \<forall>j < length input_names.
         map_of (inputs (fst (set_combination i 0 input_names s []))) (input_names ! j) =
           Some (if bit_of i j \<noteq> 0 then HIGH else LOW) \<and>
         map_of (gates (fst (set_combination i 0 input_names s []))) (input_names ! j) =
           map_option (\<lambda>g. g\<lparr>gate_output := (if bit_of i j \<noteq> 0 then HIGH else LOW)\<rparr>)
             (map_of (gates s) (input_names ! j)))) \<and>
   (gates_ok (gates s) \<longrightarrow>
      (\<exists>rows s'. get_truth_table s input_names output_names = Inr (rows, s')))"
proof -
  have A: "length rows = 2 ^ length input_names \<and>
      (distinct input_names \<longrightarrow>
         (\<forall>i < 2 ^ length input_names. \<forall>j < length input_names.
            map_of (row_inputs (rows ! i)) (input_names ! j) = Some (bit_of i j)))"
    if g: "get_truth_table s input_names output_names = Inr (rows, s')" for rows s'
  proof -
    from g have t: "truth_rows input_names output_names [0..<2 ^ length input_names] s = Inr (rows, s')"
      by (simp add: get_truth_table_def)
    from truth_rows_frame [OF t] have len: "length rows = 2 ^ length input_names" and
      fr: "\<forall>k < 2 ^ length input_names.
             \<exists>s0. row_inputs (rows ! k) = snd (set_combination k 0 input_names s0 [])"
      by simp_all
    have "map_of (row_inputs (rows ! i)) (input_names ! j) = Some (bit_of i j)"
      if d: "distinct input_names" and i: "i < 2 ^ length input_names"
        and j: "j < length input_names" for i j
    proof -
      from fr i obtain s0 where
        "row_inputs (rows ! i) = snd (set_combination i 0 input_names s0 [])" by blast
      with set_combination_values [OF d j, of i 0 s0 "[]"] show ?thesis by simp
    qed
    with len show ?thesis by blast
  qed
  have B: "\<exists>rows s'. get_truth_table s input_names output_names = Inr (rows, s')"
    if "gates_ok (gates s)"
    using truth_rows_ok [OF that] by (simp add: get_truth_table_def)
  have C: "map_of (inputs (fst (set_combination i 0 input_names s []))) (input_names ! j) =
           Some (if bit_of i j \<noteq> 0 then HIGH else LOW) \<and>
         map_of (gates (fst (set_combination i 0 input_names s []))) (input_names ! j) =
           map_option (\<lambda>g. g\<lparr>gate_output := (if bit_of i j \<noteq> 0 then HIGH else LOW)\<rparr>)
             (map_of (gates s) (input_names ! j))"
    if "distinct input_names" "j < length input_names" for i j
    using set_combination_forces [OF that, of i 0 s "[]"] by simp
  from A B C show ?thesis by blast
qed

lemma gates_ok_and_sim: "gates_ok (gates and_sim)"
  by (simp add: and_sim_def add_gate_def create_digital_simulator_def
        gates_ok_def gate_ok_def LogicGate_init_def)

theorem get_truth_table_rows_witness:
  "\<exists>rows s'. get_truth_table and_sim [''A'', ''B''] [''g''] = Inr (rows, s') \<and>
      length rows = 4 \<and> map_of (row_inputs (rows ! 3)) ''A'' = Some 1 \<and>
      map_of (row_inputs (rows ! 2)) ''A'' = Some 0 \<and>
      map_of (row_inputs (rows ! 2)) ''B'' = Some 1"
proof -
  note T = get_truth_table_rows [of and_sim "[''A'', ''B'']" "[''g'']"]
  have d: "distinct [''A'', ''B'']" by simp
  from T gates_ok_and_sim obtain rows s' where
    g: "get_truth_table and_sim [''A'', ''B''] [''g''] = Inr (rows, s')" by blast
  from T g have len: "length rows = 2 ^ length [''A'', ''B'']" by blast
  from T g d have b: "\<forall>i < 2 ^ length [''A'', ''B'']. \<forall>j < length [''A'', ''B''].
            map_of (row_inputs (rows ! i)) ([''A'', ''B''] ! j) = Some (bit_of i j)"
    by blast
  have "map_of (row_inputs (rows ! 3)) ''A'' = Some (bit_of 3 0)"
    using b [rule_format, of 3 0] by simp
  moreover have "map_of (row_inputs (rows ! 2)) ''A'' = Some (bit_of 2 0)"
    using b [rule_format, of 2 0] by simp
  moreover have "map_of (row_inputs (rows ! 2)) ''B'' = Some (bit_of 2 1)"
    using b [rule_format, of 2 1] by simp
  ultimately have "map_of (row_inputs (rows ! 3)) ''A'' = Some 1 \<and>
      map_of (row_inputs (rows ! 2)) ''A'' = Some 0 \<and>
      map_of (row_inputs (rows ! 2)) ''B'' = Some 1"
    by (simp add: bit_of_def)
  with g len show ?thesis by simp
qed

text \<open>
  Claim C3 at circuits where its example fails. With the input names \<^verbatim>\<open>A\<close> and \<^verbatim>\<open>B\<close> being
  BUFFER gates wired to the AND gate \<^verbatim>\<open>g\<close>, the levels forced onto the outputs of \<^verbatim>\<open>A\<close> and
  \<^verbatim>\<open>B\<close> are recomputed in the first pass of \<^verbatim>\<open>propagate\<close> from the buffers' own inputs, which
  are UNKNOWN, and \<^verbatim>\<open>g\<close> ends UNKNOWN: every row has output -1, the row (1,1) included. The
  same holds for the AND gate alone, whose inputs nothing drives.
\<close>

theorem and_gate_truth_table_unknown:
  "map_sum id fst (get_truth_table and_buffered_sim [''A'', ''B''] [''g'']) =
     Inr [\<lparr>row_inputs = [(''A'', 0), (''B'', 0)], row_outputs = [(''g'', - 1)]\<rparr>,
          \<lparr>row_inputs = [(''A'', 1), (''B'', 0)], row_outputs = [(''g'', - 1)]\<rparr>,
          \<lparr>row_inputs = [(''A'', 0), (''B'', 1)], row_outputs = [(''g'', - 1)]\<rparr>,
          \<lparr>row_inputs = [(''A'', 1), (''B'', 1)], row_outputs = [(''g'', - 1)]\<rparr>] \<and>
   map_sum id fst (get_truth_table and_sim [''A'', ''B''] [''g'']) =
     Inr [\<lparr>row_inputs = [(''A'', 0), (''B'', 0)], row_outputs = [(''g'', - 1)]\<rparr>,
          \<lparr>row_inputs = [(''A'', 1), (''B'', 0)], row_outputs = [(''g'', - 1)]\<rparr>,
          \<lparr>row_inputs = [(''A'', 0), (''B'', 1)], row_outputs = [(''g'', - 1)]\<rparr>,
          \<lparr>row_inputs = [(''A'', 1), (''B'', 1)], row_outputs = [(''g'', - 1)]\<rparr>]"
  by code_simp

end
